theory Spec2Isabelle
  imports Complex_Main
begin

section \<open>Python values of the raw records\<close>

text \<open>
  The extractors read loosely typed JSON records (\<^verbatim>\<open>dict[str, Any]\<close>). A value is one
  of the JSON shapes; a dictionary is an association list (the first binding of a key
  is the one \<^verbatim>\<open>raw.get\<close> sees). In the extractors and in the first model of the
  inference a Python float is a real number, without rounding, infinity or NaN: their
  claims are about signs and branches. The profit report is modelled in doubles further on.
\<close>

datatype pyval =
    PNone
  | PBool bool
  | PInt int
  | PFloat real
  | PStr string
  | PList "pyval list"
  | PDict "(string \<times> pyval) list"

type_synonym pydict = "(string \<times> pyval) list"

text \<open>
  Three builtins of Python are not re-implemented here and are taken as they are:
  \<^verbatim>\<open>float(s)\<close> and \<^verbatim>\<open>int(s)\<close> on a string (\<open>None\<close> is ValueError), and the
  text that \<^verbatim>\<open>str\<close> gives for a float, a list or a dictionary.
\<close>

record py_env =
  float_of_str :: "string \<Rightarrow> real option"
  int_of_str :: "string \<Rightarrow> int option"
  repr_of :: "pyval \<Rightarrow> string"

definition dict_get :: "pydict \<Rightarrow> string \<Rightarrow> pyval" where
  \<comment> \<open>\<^verbatim>\<open>raw.get(key)\<close>: None when the key is absent.\<close>
  "dict_get raw k = (case map_of raw k of None \<Rightarrow> PNone | Some v \<Rightarrow> v)"

fun truthy :: "pyval \<Rightarrow> bool" where
  "truthy PNone = False"
| "truthy (PBool b) = b"
| "truthy (PInt i) = (i \<noteq> 0)"
| "truthy (PFloat x) = (x \<noteq> 0)"
| "truthy (PStr s) = (s \<noteq> [])"
| "truthy (PList xs) = (xs \<noteq> [])"
| "truthy (PDict kvs) = (kvs \<noteq> [])"

definition py_or :: "pyval \<Rightarrow> pyval \<Rightarrow> pyval" where
  \<comment> \<open>\<^verbatim>\<open>a or b\<close>\<close>
  "py_or a b = (if truthy a then a else b)"

definition digit_char :: "nat \<Rightarrow> char" where
  "digit_char d = ''0123456789'' ! (d mod 10)"

function str_of_nat :: "nat \<Rightarrow> string" where
  "str_of_nat n = (if n < 10 then [digit_char n] else str_of_nat (n div 10) @ [digit_char (n mod 10)])"
  by pat_completeness auto
termination
  by (relation "measure id") auto

declare str_of_nat.simps [simp del]

definition str_of_int :: "int \<Rightarrow> string" where
  \<comment> \<open>\<^verbatim>\<open>str(i)\<close> for an int\<close>
  "str_of_int i = (if i < 0 then CHR ''-'' # str_of_nat (nat (- i)) else str_of_nat (nat i))"

fun py_str :: "py_env \<Rightarrow> pyval \<Rightarrow> string" where
  "py_str E PNone = ''None''"
| "py_str E (PBool b) = (if b then ''True'' else ''False'')"
| "py_str E (PInt i) = str_of_int i"
| "py_str E (PStr s) = s"
| "py_str E v = repr_of E v"

definition lower_char :: "char \<Rightarrow> char" where
  \<comment> \<open>ASCII case folding; a byte outside \<open>A\<close>..\<open>Z\<close> is left alone\<close>
  "lower_char c =
     (case List.find (\<lambda>p. fst p = c) (zip ''ABCDEFGHIJKLMNOPQRSTUVWXYZ'' ''abcdefghijklmnopqrstuvwxyz'') of
        None \<Rightarrow> c | Some p \<Rightarrow> snd p)"

definition lower :: "string \<Rightarrow> string" where
  "lower s = map lower_char s"

fun is_prefix :: "string \<Rightarrow> string \<Rightarrow> bool" where
  "is_prefix [] ys = True"
| "is_prefix (x # xs) [] = False"
| "is_prefix (x # xs) (y # ys) = (x = y \<and> is_prefix xs ys)"

fun contains :: "string \<Rightarrow> string \<Rightarrow> bool" where
  \<comment> \<open>\<^verbatim>\<open>needle in hay\<close>\<close>
  "contains needle [] = (needle = [])"
| "contains needle (y # ys) = (is_prefix needle (y # ys) \<or> contains needle ys)"

fun py_float :: "py_env \<Rightarrow> pyval \<Rightarrow> real option" where
  \<comment> \<open>\<^verbatim>\<open>float(v)\<close>; \<open>None\<close> stands for TypeError or ValueError\<close>
  "py_float E PNone = None"
| "py_float E (PBool b) = Some (if b then 1 else 0)"
| "py_float E (PInt i) = Some (real_of_int i)"
| "py_float E (PFloat x) = Some x"
| "py_float E (PStr s) = float_of_str E s"
| "py_float E (PList xs) = None"
| "py_float E (PDict kvs) = None"

section \<open>legacy/reports.py: the inference of the initial capital\<close>

text \<open>
  A row of the unified table. A cell of a numeric column is \<open>None\<close> when
  \<^verbatim>\<open>pd.to_numeric(..., errors="coerce")\<close> gives NaN for it; a cell of a text column is
  \<open>None\<close> when it is missing. The columns \<open>row_type\<close> and \<open>pair\<close> are the source's
  columns of the event's label and of its market, which have Korean names there. The table
  has all of these columns, and no cell of it is an infinity.
\<close>

record unified_row =
  event_group :: "string option"
  event_subtype :: "string option"
  row_type :: "string option"
  pair :: "string option"
  quantity :: "real option"
  quote_value :: "real option"
  signed_quote_value :: "real option"
  fee_usd :: "real option"
  funding_usd :: "real option"
  is_airdrop :: "bool option"

text \<open>
  The caveats are messages; the third one embeds the proxy formatted with four decimals,
  so a caveat is kept as the message's kind and its number.
\<close>

datatype caveat =
    NegativeReconciliation
    \<comment> \<open>"Reconciliation produced negative beginning equity; replaced with max-exposure proxy."\<close>
  | NoDeposits
    \<comment> \<open>"No explicit deposits/withdrawals found; initial capital estimate has high uncertainty."\<close>
  | ProxyObserved real
    \<comment> \<open>"Max signed-quote exposure proxy observed: ..."\<close>

record InitialCapitalInference =
  estimated_beginning_equity :: real
  inference_method :: string
  confidence :: string
  caveats :: "caveat list"

definition fillna0 :: "real option \<Rightarrow> real" where
  "fillna0 c = (case c of None \<Rightarrow> 0 | Some x \<Rightarrow> x)"

fun cumsum_from :: "real \<Rightarrow> real list \<Rightarrow> real list" where
  "cumsum_from acc [] = []"
| "cumsum_from acc (x # xs) = (acc + x) # cumsum_from (acc + x) xs"

definition cumsum :: "real list \<Rightarrow> real list" where
  "cumsum xs = cumsum_from 0 xs"

fun series_min :: "real list \<Rightarrow> real" where
  \<comment> \<open>\<^verbatim>\<open>Series.min()\<close> of a series with at least one entry; the source asks for it only then\<close>
  "series_min [] = 0"
| "series_min (x # xs) = fold min xs x"

definition running_signed :: "unified_row list \<Rightarrow> real list" where
  "running_signed unified_df = cumsum (map (\<lambda>r. fillna0 (signed_quote_value r)) unified_df)"

definition max_capital_proxy :: "unified_row list \<Rightarrow> real" where
  "max_capital_proxy unified_df =
     (let running = running_signed unified_df
      in if length running \<noteq> 0 then \<bar>series_min running\<bar> else 0)"

definition infer_initial_capital ::
  "unified_row list \<Rightarrow> real \<Rightarrow> real \<Rightarrow> real \<Rightarrow> InitialCapitalInference" where
  "infer_initial_capital unified_df ending_equity net_deposits net_pnl_components =
     (let recon_estimate0 = ending_equity - net_deposits - net_pnl_components;
          proxy = max_capital_proxy unified_df;
          s1 = (if recon_estimate0 < 0
                then (proxy, ''max_exposure_proxy'', ''low'', [NegativeReconciliation])
                else (recon_estimate0, ''reconciliation'', ''medium'', []));
          s2 = (case s1 of (recon, m, c, cav) \<Rightarrow>
                  if net_deposits = 0
                  then (if proxy > recon
                        then (proxy, ''max_exposure_proxy'', ''low'', cav @ [NoDeposits])
                        else (recon, m, c, cav @ [NoDeposits]))
                  else (recon, m, c, cav));
          s3 = (case s2 of (recon, m, c, cav) \<Rightarrow>
                  if proxy > 0 then (recon, m, c, cav @ [ProxyObserved proxy]) else (recon, m, c, cav))
      in case s3 of (recon, m, c, cav) \<Rightarrow>
           \<lparr>estimated_beginning_equity = recon, inference_method = m, confidence = c, caveats = cav\<rparr>)"

text \<open>The exposure proxy as the specification words it, on a running sum.\<close>

definition spec_exposure_proxy :: "real list \<Rightarrow> real" where
  "spec_exposure_proxy running = (if running = [] then 0 else max 0 (- series_min running))"

definition upper_char :: "char \<Rightarrow> char" where
  "upper_char c =
     (case List.find (\<lambda>p. fst p = c) (zip ''abcdefghijklmnopqrstuvwxyz'' ''ABCDEFGHIJKLMNOPQRSTUVWXYZ'') of
        None \<Rightarrow> c | Some p \<Rightarrow> snd p)"

definition upper :: "string \<Rightarrow> string" where
  "upper s = map upper_char s"

definition str_contains_nocase :: "string option \<Rightarrow> string \<Rightarrow> bool" where
  \<comment> \<open>\<^verbatim>\<open>series.fillna("").astype(str).str.contains(needle, case=False, regex=False)\<close>, one cell\<close>
  "str_contains_nocase cell needle =
     contains (upper needle) (upper (case cell of None \<Rightarrow> [] | Some s \<Rightarrow> s))"

definition sell_label :: string where
  \<comment> \<open>the label of a sell in the column \<open>row_type\<close>, in UTF-8\<close>
  "sell_label = [CHR 0xEB, CHR 0xA7, CHR 0xA4, CHR 0xEB, CHR 0x8F, CHR 0x84]"

section \<open>IEEE 754 double arithmetic\<close>

text \<open>
  The claims on the inference above are decided by the branch the function takes, and the
  real numbers decide them. The reconciliation ledger is a statement about the rounding
  of the arithmetic, so the profit report, with the inference it calls, is modelled in
  binary64: a value is a finite number, an infinity or NaN, and an operation on finite
  numbers rounds its exact result to the nearest double, ties to the even mantissa, and
  overflows to an infinity. The sign of a zero is not kept.
\<close>

datatype fval = Finite real | PInf | NInf | NaN

definition round_half_even :: "real \<Rightarrow> int" where
  "round_half_even z =
     (let f = \<lfloor>z\<rfloor>
      in if z - of_int f < 1 / 2 then f
         else if 1 / 2 < z - of_int f then f + 1
         else if even f then f else f + 1)"

definition double_exponent :: "real \<Rightarrow> int" where
  \<comment> \<open>the binary exponent of a nonzero number, held at the least exponent of a normal double\<close>
  "double_exponent x = max \<lfloor>log 2 \<bar>x\<bar>\<rfloor> (- 1022)"

definition round_double :: "real \<Rightarrow> fval" where
  \<comment> \<open>the double nearest to a real: a multiple of the spacing \<open>2 ^ (e - 52)\<close> at its exponent\<close>
  "round_double x =
     (if x = 0 then Finite 0
      else (let q = 2 powr (of_int (double_exponent x) - 52);
                y = of_int (round_half_even (x / q)) * q
            in if 2 powr 1024 \<le> \<bar>y\<bar> then (if 0 < x then PInf else NInf) else Finite y))"

fun fneg :: "fval \<Rightarrow> fval" where
  "fneg (Finite x) = Finite (- x)"
| "fneg PInf = NInf"
| "fneg NInf = PInf"
| "fneg NaN = NaN"

fun fadd :: "fval \<Rightarrow> fval \<Rightarrow> fval" where
  "fadd (Finite x) (Finite y) = round_double (x + y)"
| "fadd NaN b = NaN"
| "fadd a NaN = NaN"
| "fadd PInf NInf = NaN"
| "fadd NInf PInf = NaN"
| "fadd PInf b = PInf"
| "fadd a PInf = PInf"
| "fadd NInf b = NInf"
| "fadd a NInf = NInf"

definition fsub :: "fval \<Rightarrow> fval \<Rightarrow> fval" where
  "fsub a b = fadd a (fneg b)"

fun fdiv :: "fval \<Rightarrow> fval \<Rightarrow> fval" where
  \<comment> \<open>the quotient by a divisor that is not zero; the source divides by a positive number only\<close>
  "fdiv (Finite x) (Finite y) = (if y = 0 then NaN else round_double (x / y))"
| "fdiv NaN b = NaN"
| "fdiv a NaN = NaN"
| "fdiv (Finite x) b = Finite 0"
| "fdiv a (Finite y) = (if (a = PInf) = (0 \<le> y) then PInf else NInf)"
| "fdiv a b = NaN"

fun flt :: "fval \<Rightarrow> fval \<Rightarrow> bool" where
  \<comment> \<open>\<^verbatim>\<open>a < b\<close>: false when either is NaN\<close>
  "flt (Finite x) (Finite y) = (x < y)"
| "flt NaN b = False"
| "flt a NaN = False"
| "flt a NInf = False"
| "flt NInf b = True"
| "flt PInf b = False"
| "flt a PInf = True"

fun feq :: "fval \<Rightarrow> fval \<Rightarrow> bool" where
  \<comment> \<open>\<^verbatim>\<open>a == b\<close>: false when either is NaN\<close>
  "feq (Finite x) (Finite y) = (x = y)"
| "feq PInf PInf = True"
| "feq NInf NInf = True"
| "feq a b = False"

fun fabs :: "fval \<Rightarrow> fval" where
  "fabs (Finite x) = Finite \<bar>x\<bar>"
| "fabs PInf = PInf"
| "fabs NInf = PInf"
| "fabs NaN = NaN"

definition fmin :: "fval \<Rightarrow> fval \<Rightarrow> fval" where
  "fmin a b = (if flt b a then b else a)"

section \<open>legacy/reports.py in double arithmetic: the inference and the profit report\<close>

text \<open>
  Two things of the libraries are taken as they are: \<^verbatim>\<open>float(s)\<close> on a string, which may
  give an infinity or NaN (\<open>None\<close> is ValueError), and the sum of a float column, whose
  order of additions is the library's.
\<close>

record ieee_env =
  float_of_text :: "string \<Rightarrow> fval option"
  column_sum :: "fval list \<Rightarrow> fval"

definition cell64 :: "real option \<Rightarrow> fval" where
  \<comment> \<open>\<^verbatim>\<open>pd.to_numeric(col, errors="coerce").fillna(0.0)\<close>, one cell: the double of its number\<close>
  "cell64 c = (case c of None \<Rightarrow> Finite 0 | Some x \<Rightarrow> round_double x)"

fun cumsum64_from :: "fval \<Rightarrow> fval list \<Rightarrow> fval list" where
  "cumsum64_from acc [] = []"
| "cumsum64_from acc (x # xs) = fadd acc x # cumsum64_from (fadd acc x) xs"

definition cumsum64 :: "fval list \<Rightarrow> fval list" where
  \<comment> \<open>the running sum starts with the first cell itself\<close>
  "cumsum64 xs = (case xs of [] \<Rightarrow> [] | x # rest \<Rightarrow> x # cumsum64_from x rest)"

definition series_min64 :: "fval list \<Rightarrow> fval" where
  \<comment> \<open>\<^verbatim>\<open>Series.min()\<close> skips NaN and is NaN when nothing is left\<close>
  "series_min64 xs = (case filter (\<lambda>v. v \<noteq> NaN) xs of [] \<Rightarrow> NaN | y # ys \<Rightarrow> fold fmin ys y)"

definition max_capital_proxy64 :: "unified_row list \<Rightarrow> fval" where
  "max_capital_proxy64 unified_df =
     (let running = cumsum64 (map (\<lambda>r. cell64 (signed_quote_value r)) unified_df)
      in if length running \<noteq> 0 then fabs (series_min64 running) else Finite 0)"

datatype caveat64 =
    NegativeReconciliation64
  | NoDeposits64
  | ProxyObserved64 fval

record InitialCapitalInference64 =
  estimated_beginning_equity64 :: fval
  inference_method64 :: string
  confidence64 :: string
  caveats64 :: "caveat64 list"

definition infer_initial_capital64 ::
  "unified_row list \<Rightarrow> fval \<Rightarrow> fval \<Rightarrow> fval \<Rightarrow> InitialCapitalInference64" where
  "infer_initial_capital64 unified_df ending_equity net_deposits net_pnl_components =
     (let recon_estimate0 = fsub (fsub ending_equity net_deposits) net_pnl_components;
          proxy = max_capital_proxy64 unified_df;
          s1 = (if flt recon_estimate0 (Finite 0)
                then (proxy, ''max_exposure_proxy'', ''low'', [NegativeReconciliation64])
                else (recon_estimate0, ''reconciliation'', ''medium'', []));
          s2 = (case s1 of (recon, m, c, cav) \<Rightarrow>
                  if feq net_deposits (Finite 0)
                  then (if flt recon proxy
                        then (proxy, ''max_exposure_proxy'', ''low'', cav @ [NoDeposits64])
                        else (recon, m, c, cav @ [NoDeposits64]))
                  else (recon, m, c, cav));
          s3 = (case s2 of (recon, m, c, cav) \<Rightarrow>
                  if flt (Finite 0) proxy then (recon, m, c, cav @ [ProxyObserved64 proxy])
                  else (recon, m, c, cav))
      in case s3 of (recon, m, c, cav) \<Rightarrow>
           \<lparr>estimated_beginning_equity64 = recon, inference_method64 = m, confidence64 = c,
            caveats64 = cav\<rparr>)"

record token_summary =
  ts_token_sold_qty :: fval
  ts_token_vwap_sell_price :: fval
  ts_token_sale_proceeds :: fval
  ts_token_sales_pnl :: fval

definition token_sell_summary :: "ieee_env \<Rightarrow> unified_row list \<Rightarrow> string \<Rightarrow> token_summary" where
  "token_sell_summary E unified_df token_keyword =
     (let token_sells = filter (\<lambda>r. str_contains_nocase (pair r) token_keyword
                                   \<and> event_subtype r \<in> {Some ''trade'', Some ''liquidation''}
                                   \<and> row_type r = Some sell_label) unified_df;
          sold_qty = column_sum E (map (\<lambda>r. cell64 (quantity r)) token_sells);
          sale_proceeds = column_sum E (map (\<lambda>r. cell64 (quote_value r)) token_sells);
          vwap = (if flt (Finite 0) sold_qty then fdiv sale_proceeds sold_qty else Finite 0)
      in \<lparr>ts_token_sold_qty = sold_qty, ts_token_vwap_sell_price = vwap,
          ts_token_sale_proceeds = sale_proceeds, ts_token_sales_pnl = sale_proceeds\<rparr>)"

datatype report_error = OverflowError

fun safe_float :: "ieee_env \<Rightarrow> pyval \<Rightarrow> report_error + fval" where
  \<comment> \<open>\<^verbatim>\<open>float(v)\<close> with 0.0 for TypeError and ValueError; an int beyond the doubles raises
      OverflowError, which the function does not catch\<close>
  "safe_float E PNone = Inr (Finite 0)"
| "safe_float E (PBool b) = Inr (Finite (if b then 1 else 0))"
| "safe_float E (PInt i) =
     (case round_double (of_int i) of Finite y \<Rightarrow> Inr (Finite y) | _ \<Rightarrow> Inl OverflowError)"
| "safe_float E (PFloat x) = Inr (round_double x)"
| "safe_float E (PStr s) = (case float_of_text E s of None \<Rightarrow> Inr (Finite 0) | Some v \<Rightarrow> Inr v)"
| "safe_float E (PList xs) = Inr (Finite 0)"
| "safe_float E (PDict kvs) = Inr (Finite 0)"

record ProfitSummary =
  net_deposits :: fval
  realized_pnl :: fval
  unrealized_pnl :: fval
  fees_plus_funding :: fval
  airdrop_tokens_received :: fval
  token_sold_qty :: fval
  token_vwap_sell_price :: fval
  token_sale_proceeds :: fval
  token_sales_pnl :: fval
  ending_equity :: fval
  beginning_equity_estimate :: fval
  total_profit :: fval

text \<open>
  The report: the summary, the inference and the reconciliation ledger in its order. The
  daily and monthly tables and the airdrop timestamps of the source are not part of it.
\<close>

record profit_report =
  summary :: ProfitSummary
  initial_capital_inference :: InitialCapitalInference64
  reconciliation :: "(string \<times> fval) list"

definition report_of ::
  "ieee_env \<Rightarrow> unified_row list \<Rightarrow> string \<Rightarrow> fval \<Rightarrow> fval \<Rightarrow> fval \<Rightarrow> profit_report" where
  \<comment> \<open>the report, once the three numbers of the balance snapshot are read\<close>
  "report_of E unified_df token_keyword rp up ee =
     (let transfer_rows = filter (\<lambda>r. event_group r = Some ''transfer'') unified_df;
          deposits = filter (\<lambda>r. event_subtype r = Some ''deposit'') transfer_rows;
          withdrawals = filter (\<lambda>r. event_subtype r = Some ''withdraw'') transfer_rows;
          nd = fsub (column_sum E (map (\<lambda>r. cell64 (quote_value r)) deposits))
                    (column_sum E (map (\<lambda>r. cell64 (quote_value r)) withdrawals));
          fee_total = column_sum E (map (\<lambda>r. cell64 (fee_usd r)) unified_df);
          funding_total = column_sum E (map (\<lambda>r. cell64 (funding_usd r)) unified_df);
          ff = fneg (fadd fee_total funding_total);
          airdrops = column_sum E (map (\<lambda>r. cell64 (quantity r))
                       (filter (\<lambda>r. is_airdrop r = Some True) unified_df));
          tok = token_sell_summary E unified_df token_keyword;
          pnl_components = fadd (fadd (fadd rp up) ff) (ts_token_sales_pnl tok);
          init = infer_initial_capital64 unified_df ee nd pnl_components;
          tp = fsub ee (estimated_beginning_equity64 init)
      in \<lparr>summary =
            \<lparr>net_deposits = nd, realized_pnl = rp, unrealized_pnl = up, fees_plus_funding = ff,
             airdrop_tokens_received = airdrops, token_sold_qty = ts_token_sold_qty tok,
             token_vwap_sell_price = ts_token_vwap_sell_price tok,
             token_sale_proceeds = ts_token_sale_proceeds tok,
             token_sales_pnl = ts_token_sales_pnl tok, ending_equity = ee,
             beginning_equity_estimate = estimated_beginning_equity64 init, total_profit = tp\<rparr>,
          initial_capital_inference = init,
          reconciliation =
            [(''BeginningEquity(estimated)'', estimated_beginning_equity64 init),
             (''+NetDeposits'', nd),
             (''+RealizedPnL'', rp),
             (''+UnrealizedPnL'', up),
             (''+TokenSalesPnL'', ts_token_sales_pnl tok),
             (''+FeesFunding(net)'', ff),
             (''=EndingEquity'', ee)]\<rparr>)"

definition build_profit_report ::
  "ieee_env \<Rightarrow> unified_row list \<Rightarrow> pydict \<Rightarrow> string \<Rightarrow> report_error + profit_report" where
  "build_profit_report E unified_df balance_snapshot token_keyword =
     (case safe_float E (dict_get balance_snapshot ''realized_pnl'') of
        Inl err \<Rightarrow> Inl err
      | Inr rp \<Rightarrow>
     (case safe_float E (dict_get balance_snapshot ''unrealized_pnl'') of
        Inl err \<Rightarrow> Inl err
      | Inr up \<Rightarrow>
     (case safe_float E (dict_get balance_snapshot ''ending_equity'') of
        Inl err \<Rightarrow> Inl err
      | Inr ee \<Rightarrow> Inr (report_of E unified_df token_keyword rp up ee))))"

section \<open>main.py: the coverage guard\<close>

record EndpointStatus =
  name :: string
  success :: bool
  records :: int
  error :: string

record coverage_details =
  missing_core_status :: "string list"
  failed_core_endpoints :: "string list"
  transfers_rows :: nat
  trades_rows :: nat

datatype run_error = RuntimeError coverage_details

definition core :: "string list" where
  "core = [''trades'', ''deposit/history'', ''withdraw/history'', ''l1Metadata'']"

definition by_name :: "EndpointStatus list \<Rightarrow> string \<Rightarrow> EndpointStatus option" where
  \<comment> \<open>\<^verbatim>\<open>{s.name: s for s in statuses}\<close>: the last status of a name is the one kept\<close>
  "by_name statuses = map_of (rev (map (\<lambda>s. (name s, s)) statuses))"

definition ensure_api_coverage :: "EndpointStatus list \<Rightarrow> 'a list \<Rightarrow> 'b list \<Rightarrow> run_error + unit" where
  "ensure_api_coverage statuses transfers trades =
     (let missing = filter (\<lambda>n. by_name statuses n = None) core;
          failed = filter (\<lambda>n. case by_name statuses n of None \<Rightarrow> False | Some s \<Rightarrow> \<not> success s) core;
          no_data = (transfers = [] \<and> trades = []);
          all_core_failed = (length failed = length (filter (\<lambda>c. by_name statuses c \<noteq> None) core))
      in if missing \<noteq> [] \<or> (no_data \<and> all_core_failed)
         then Inl (RuntimeError \<lparr>missing_core_status = missing, failed_core_endpoints = failed,
                                 transfers_rows = length transfers, trades_rows = length trades\<rparr>)
         else Inr ())"

section \<open>extractors/trades.py: sides, fees and the normalized trade\<close>

definition get_or2 :: "pydict \<Rightarrow> string \<Rightarrow> string \<Rightarrow> pyval" where
  \<comment> \<open>\<^verbatim>\<open>raw.get(a) or raw.get(b)\<close>\<close>
  "get_or2 raw a b = py_or (dict_get raw a) (dict_get raw b)"

definition get_or3 :: "pydict \<Rightarrow> string \<Rightarrow> string \<Rightarrow> string \<Rightarrow> pyval" where
  \<comment> \<open>\<^verbatim>\<open>raw.get(a) or raw.get(b) or raw.get(c)\<close>\<close>
  "get_or3 raw a b c = py_or (py_or (dict_get raw a) (dict_get raw b)) (dict_get raw c)"

definition resolve_side :: "py_env \<Rightarrow> pydict \<Rightarrow> int \<Rightarrow> string" where
  "resolve_side E raw account_index =
     (let side = lower (py_str E (py_or (get_or3 raw ''side'' ''direction'' ''trade_side'') (PStr [])))
      in if side \<in> {''b'', ''bid''} then ''buy''
         else if side \<in> {''s'', ''ask''} then ''sell''
         else if side \<in> {''buy'', ''sell''} then side
         else
           (let is_taker_ask = dict_get raw ''is_taker_ask'';
                taker_idx = py_str E (py_or (dict_get raw ''taker_account_index'') (PStr []));
                maker_idx = py_str E (py_or (dict_get raw ''maker_account_index'') (PStr []));
                me = str_of_int account_index;
                flag = lower (py_str E is_taker_ask)
            in if flag \<in> {''1'', ''true''} \<or> flag \<in> {''0'', ''false''}
               then
                 (let taker_side = (if flag \<in> {''1'', ''true''} then ''sell'' else ''buy'')
                  in if taker_idx \<noteq> [] \<and> taker_idx = me then taker_side
                     else if maker_idx \<noteq> [] \<and> maker_idx = me
                          then (if taker_side = ''sell'' then ''buy'' else ''sell'')
                     else taker_side)
               else ''unknown''))"

definition to_float :: "py_env \<Rightarrow> pyval \<Rightarrow> real \<Rightarrow> real" where
  \<comment> \<open>api_client.to_float: the default for None and for a value \<^verbatim>\<open>float\<close> refuses\<close>
  "to_float E v dflt = (if v = PNone then dflt else case py_float E v of None \<Rightarrow> dflt | Some x \<Rightarrow> x)"

fun py_int :: "py_env \<Rightarrow> pyval \<Rightarrow> int option" where
  \<comment> \<open>\<^verbatim>\<open>int(v)\<close>; \<open>None\<close> stands for TypeError or ValueError\<close>
  "py_int E PNone = None"
| "py_int E (PBool b) = Some (if b then 1 else 0)"
| "py_int E (PInt i) = Some i"
| "py_int E (PFloat x) = Some (if 0 \<le> x then \<lfloor>x\<rfloor> else \<lceil>x\<rceil>)"
| "py_int E (PStr s) = int_of_str E s"
| "py_int E (PList xs) = None"
| "py_int E (PDict kvs) = None"

text \<open>
  A timestamp is an instant in microseconds since the epoch; \<open>None\<close> is a missing one.
  How the timestamp parser of the API client reads a value is not modelled: the
  normalizers take the parser as an argument.
\<close>

type_synonym timestamp = int

record trade_row =
  t_timestamp :: "timestamp option"
  t_side :: string
  t_market :: string
  t_price :: real
  t_size :: real
  t_notional_quote :: real
  t_fee_quote :: real
  t_funding_quote :: real
  t_realized_pnl :: real
  t_liquidation :: bool
  t_tx_hash :: pyval
  t_source :: string
  t_raw :: pydict

definition trade_market :: "py_env \<Rightarrow> pydict \<Rightarrow> (int \<Rightarrow> string option) \<Rightarrow> string" where
  "trade_market E raw market_map =
     (let market0 = get_or3 raw ''symbol'' ''market'' ''pair'';
          market_index = get_or2 raw ''market_index'' ''market_id'';
          market1 = (if market_index \<noteq> PNone
                     then (case py_int E market_index of
                             None \<Rightarrow> market0
                           | Some i \<Rightarrow> (case market_map i of
                                         None \<Rightarrow> market0
                                       | Some mapped \<Rightarrow> if mapped \<noteq> [] then PStr mapped else market0))
                     else market0);
          market2 = (if \<not> truthy market1 \<and> market_index \<noteq> PNone
                     then PStr (''market_'' @ py_str E market_index) else market1)
      in py_str E (py_or market2 (PStr [])))"

definition trade_size :: "py_env \<Rightarrow> pydict \<Rightarrow> real" where
  "trade_size E raw = to_float E (get_or3 raw ''size'' ''quantity'' ''filled_size'') 0"

definition trade_price :: "py_env \<Rightarrow> pydict \<Rightarrow> real" where
  "trade_price E raw = to_float E (dict_get raw ''price'') 0"

definition trade_notional :: "py_env \<Rightarrow> pydict \<Rightarrow> real" where
  \<comment> \<open>the local \<open>notional\<close> of the normalizer, before the row takes its absolute value\<close>
  "trade_notional E raw =
     (let size = trade_size E raw; price = trade_price E raw;
          notional = to_float E (get_or2 raw ''notional'' ''quote_qty'') 0
      in if notional = 0 \<and> size \<noteq> 0 \<and> price \<noteq> 0 then \<bar>size * price\<bar> else notional)"

definition trade_fee_quote :: "py_env \<Rightarrow> pydict \<Rightarrow> int \<Rightarrow> real" where
  "trade_fee_quote E raw account_index =
     (let notional = trade_notional E raw;
          side = resolve_side E raw account_index;
          maker_fee_bps = to_float E (dict_get raw ''maker_fee'') 0;
          taker_fee_bps = to_float E (dict_get raw ''taker_fee'') 0;
          explicit_fee = to_float E (get_or2 raw ''fee'' ''fee_usd'') 0
      in if explicit_fee = 0 \<and> notional \<noteq> 0
         then (let bps = (if side \<in> {''buy'', ''sell''} then taker_fee_bps else maker_fee_bps)
               in if bps \<noteq> 0 then notional * bps / 10000 else explicit_fee)
         else explicit_fee)"

definition normalize_trade ::
  "py_env \<Rightarrow> (pyval \<Rightarrow> timestamp option) \<Rightarrow> pydict \<Rightarrow> string \<Rightarrow> int \<Rightarrow> (int \<Rightarrow> string option) \<Rightarrow> trade_row" where
  "normalize_trade E parse_timestamp raw source account_index market_map =
     (let ts = parse_timestamp
                 (py_or (py_or (get_or3 raw ''time'' ''timestamp'' ''created_at'') (dict_get raw ''executed_at''))
                        (dict_get raw ''updated_at''));
          tx_type = py_str E (py_or (get_or2 raw ''tx_type'' ''trade_type'') (PStr []))
      in \<lparr>t_timestamp = ts,
          t_side = resolve_side E raw account_index,
          t_market = trade_market E raw market_map,
          t_price = trade_price E raw,
          t_size = \<bar>trade_size E raw\<bar>,
          t_notional_quote = \<bar>trade_notional E raw\<bar>,
          t_fee_quote = trade_fee_quote E raw account_index,
          t_funding_quote = to_float E (get_or3 raw ''funding'' ''funding_fee'' ''funding_payment'') 0,
          t_realized_pnl = to_float E (get_or3 raw ''realized_pnl'' ''realizedPnl'' ''pnl'') 0,
          t_liquidation = (contains ''liq'' (lower tx_type) \<or> lower tx_type = ''liquidation''),
          t_tx_hash = py_or (get_or3 raw ''hash'' ''tx_hash'' ''trade_id'') (dict_get raw ''id''),
          t_source = source,
          t_raw = raw\<rparr>)"

section \<open>extractors/transfers.py: the normalized transfer\<close>

record transfer_row =
  x_timestamp :: "timestamp option"
  x_event_type :: string
  x_asset :: string
  x_amount_quote :: real
  x_fee_quote :: real
  x_tx_hash :: pyval
  x_source :: string
  x_raw :: pydict

fun first_nonzero :: "py_env \<Rightarrow> pydict \<Rightarrow> string list \<Rightarrow> real option" where
  \<comment> \<open>the first key, in order, whose value is not None and converts to a nonzero float\<close>
  "first_nonzero E d [] = None"
| "first_nonzero E d (k # ks) =
     (let v = to_float E (dict_get d k) 0
      in if dict_get d k \<noteq> PNone \<and> v \<noteq> 0 then Some v else first_nonzero E d ks)"

definition as_dict :: "pyval \<Rightarrow> pydict option" where
  \<comment> \<open>\<^verbatim>\<open>isinstance(v, dict)\<close>\<close>
  "as_dict v = (case v of PDict d \<Rightarrow> Some d | _ \<Rightarrow> None)"

fun first_block_amount :: "py_env \<Rightarrow> pydict \<Rightarrow> string list \<Rightarrow> real option" where
  "first_block_amount E pub [] = None"
| "first_block_amount E pub (bk # bks) =
     (case as_dict (dict_get pub bk) of
        None \<Rightarrow> first_block_amount E pub bks
      | Some block \<Rightarrow>
          (case first_nonzero E block [''accepted_amount'', ''amount''] of
             None \<Rightarrow> first_block_amount E pub bks
           | Some v \<Rightarrow> Some v))"

definition pubdata_blocks :: "string list" where
  "pubdata_blocks = [''l1_deposit_pubdata_v2'', ''l1_withdraw_pubdata_v2'', ''l2_transfer_pubdata_v2'']"

definition pubdata_of :: "pydict \<Rightarrow> pydict" where
  \<comment> \<open>\<^verbatim>\<open>raw.get("pubdata") if isinstance(raw.get("pubdata"), dict) else {}\<close>\<close>
  "pubdata_of raw = (case as_dict (dict_get raw ''pubdata'') of None \<Rightarrow> [] | Some d \<Rightarrow> d)"

definition pick_amount :: "py_env \<Rightarrow> pydict \<Rightarrow> real" where
  "pick_amount E raw =
     (case first_nonzero E raw [''amount'', ''accepted_amount'', ''usdc_amount'', ''value''] of
        Some v \<Rightarrow> v
      | None \<Rightarrow>
          (let pub = pubdata_of raw
           in if pub \<noteq> []
              then (case first_block_amount E pub pubdata_blocks of Some v \<Rightarrow> v | None \<Rightarrow> 0)
              else 0))"

definition is_space :: "char \<Rightarrow> bool" where
  \<comment> \<open>the ASCII characters that \<^verbatim>\<open>str.strip()\<close> removes\<close>
  "is_space c = (c \<in> set [CHR 0x09, CHR 0x0A, CHR 0x0B, CHR 0x0C, CHR 0x0D,
                           CHR 0x1C, CHR 0x1D, CHR 0x1E, CHR 0x1F, CHR 0x20])"

definition strip_nonempty :: "string \<Rightarrow> bool" where
  \<comment> \<open>\<^verbatim>\<open>bool(s.strip())\<close>\<close>
  "strip_nonempty s = list_ex (\<lambda>c. \<not> is_space c) s"

fun first_asset :: "py_env \<Rightarrow> pydict \<Rightarrow> string list \<Rightarrow> string option" where
  "first_asset E raw [] = None"
| "first_asset E raw (k # ks) =
     (let v = dict_get raw k
      in if v \<noteq> PNone \<and> strip_nonempty (py_str E v) then Some (py_str E v) else first_asset E raw ks)"

fun first_block_asset :: "py_env \<Rightarrow> pydict \<Rightarrow> string list \<Rightarrow> string option" where
  "first_block_asset E pub [] = None"
| "first_block_asset E pub (bk # bks) =
     (case as_dict (dict_get pub bk) of
        None \<Rightarrow> first_block_asset E pub bks
      | Some block \<Rightarrow>
          if dict_get block ''asset_index'' \<noteq> PNone
          then Some (py_str E (dict_get block ''asset_index''))
          else first_block_asset E pub bks)"

definition pick_asset :: "py_env \<Rightarrow> pydict \<Rightarrow> string" where
  "pick_asset E raw =
     (case first_asset E raw [''asset'', ''asset_index'', ''token''] of
        Some a \<Rightarrow> a
      | None \<Rightarrow> (case first_block_asset E (pubdata_of raw) pubdata_blocks of
                   Some a \<Rightarrow> a | None \<Rightarrow> ''USDC''))"

definition normalize_transfer ::
  "py_env \<Rightarrow> (pyval \<Rightarrow> timestamp option) \<Rightarrow> pydict \<Rightarrow> string \<Rightarrow> string \<Rightarrow> transfer_row" where
  "normalize_transfer E parse_timestamp raw source fallback_type =
     (let tx_type = lower (py_str E (py_or (get_or2 raw ''tx_type'' ''type'') (PStr fallback_type)));
          event_type = (if contains ''deposit'' tx_type then ''deposit''
                        else if contains ''withdraw'' tx_type then ''withdraw''
                        else if contains ''transfer'' tx_type then ''transfer''
                        else fallback_type);
          ts = parse_timestamp
                 (py_or (py_or (get_or3 raw ''time'' ''timestamp'' ''created_at'') (dict_get raw ''updated_at''))
                        (dict_get raw ''executed_at''))
      in \<lparr>x_timestamp = ts,
          x_event_type = event_type,
          x_asset = pick_asset E raw,
          x_amount_quote = pick_amount E raw,
          x_fee_quote = to_float E (get_or2 raw ''fee'' ''usdc_fee'') 0,
          x_tx_hash = get_or3 raw ''hash'' ''tx_hash'' ''id'',
          x_source = source,
          x_raw = raw\<rparr>)"

section \<open>extractors/balances.py: the balance snapshot\<close>

record balance_row =
  b_timestamp :: "timestamp option"
  b_collateral_quote :: real
  b_available_balance_quote :: real
  b_total_asset_value_quote :: real
  b_realized_pnl_quote :: real
  b_unrealized_pnl_quote :: real
  b_source :: string
  b_raw :: pydict

section \<open>Deduplication of the fetched tables\<close>

text \<open>
  \<^verbatim>\<open>df.drop_duplicates(subset=..., keep="last")\<close>: a row stays when no later row has its
  key, and the rows that stay keep their order. Pandas compares the cells of an object
  column as Python does, so \<open>True\<close>, \<open>1\<close> and \<open>1.0\<close> are one key; a cell that is a list or a
  dictionary cannot be hashed and the call raises TypeError.
\<close>

fun drop_duplicates_last :: "('r \<Rightarrow> 'k) \<Rightarrow> 'r list \<Rightarrow> 'r list" where
  "drop_duplicates_last key [] = []"
| "drop_duplicates_last key (r # rs) =
     (if key r \<in> set (map key rs) then drop_duplicates_last key rs
      else r # drop_duplicates_last key rs)"

fun hashable :: "pyval \<Rightarrow> bool" where
  "hashable (PList xs) = False"
| "hashable (PDict kvs) = False"
| "hashable v = True"

fun py_key :: "pyval \<Rightarrow> pyval" where
  \<comment> \<open>one representative for the values Python holds equal\<close>
  "py_key (PBool b) = PInt (if b then 1 else 0)"
| "py_key (PFloat x) = (if x = real_of_int \<lfloor>x\<rfloor> then PInt \<lfloor>x\<rfloor> else PFloat x)"
| "py_key v = v"

datatype dedup_error = UnhashableType

definition trade_key ::
  "trade_row \<Rightarrow> timestamp option \<times> string \<times> string \<times> real \<times> real \<times> pyval" where
  "trade_key r = (t_timestamp r, t_side r, t_market r, t_size r, t_price r, py_key (t_tx_hash r))"

definition transfer_key ::
  "transfer_row \<Rightarrow> timestamp option \<times> string \<times> string \<times> real \<times> pyval" where
  "transfer_key r = (x_timestamp r, x_event_type r, x_asset r, x_amount_quote r, py_key (x_tx_hash r))"

definition balance_key :: "balance_row \<Rightarrow> timestamp option \<times> real \<times> real \<times> string" where
  "balance_key r = (b_timestamp r, b_total_asset_value_quote r, b_collateral_quote r, b_source r)"

definition dedup_trades :: "trade_row list \<Rightarrow> dedup_error + trade_row list" where
  \<comment> \<open>fetch\_trades, from the rows to the table before it is sorted\<close>
  "dedup_trades rows =
     (if rows = [] then Inr []
      else if list_ex (\<lambda>r. \<not> hashable (t_tx_hash r)) rows then Inl UnhashableType
      else Inr (drop_duplicates_last trade_key rows))"

definition dedup_transfers :: "transfer_row list \<Rightarrow> dedup_error + transfer_row list" where
  \<comment> \<open>fetch\_transfers, from the rows to the table before it is sorted\<close>
  "dedup_transfers rows =
     (if rows = [] then Inr []
      else if list_ex (\<lambda>r. \<not> hashable (x_tx_hash r)) rows then Inl UnhashableType
      else Inr (drop_duplicates_last transfer_key rows))"

definition dedup_balances :: "balance_row list \<Rightarrow> dedup_error + balance_row list" where
  \<comment> \<open>fetch\_balance\_history, from the rows to the table before it is sorted\<close>
  "dedup_balances rows = (if rows = [] then Inr [] else Inr (drop_duplicates_last balance_key rows))"

definition last_with_key :: "('r \<Rightarrow> 'k) \<Rightarrow> 'r list \<Rightarrow> 'k \<Rightarrow> 'r option" where
  \<comment> \<open>the last row of a table that has the key\<close>
  "last_with_key key rows k = List.find (\<lambda>r. key r = k) (rev rows)"

section \<open>transform.py: the exposure proxy of the deposit inference\<close>

definition trade_signed :: "trade_row \<Rightarrow> real" where
  "trade_signed r =
     (if t_side r = ''buy'' then - 1 else if t_side r = ''sell'' then 1 else 0) * t_notional_quote r
     - t_fee_quote r + t_funding_quote r"

definition exposure_proxy :: "trade_row list \<Rightarrow> real" where
  \<comment> \<open>on \<open>t\<close>, the trades in the order \<^verbatim>\<open>trades.sort_values("timestamp")\<close> gives them\<close>
  "exposure_proxy t =
     (if t \<noteq> []
      then (let running = cumsum (map trade_signed t)
            in if running \<noteq> [] then max 0 (- series_min running) else 0)
      else 0)"

section \<open>The claims' own notions and some concrete inputs\<close>

text \<open>
  An endpoint was attempted when some status carries its name; its outcome is the last
  status recorded under the name.
\<close>

definition attempted :: "EndpointStatus list \<Rightarrow> string \<Rightarrow> bool" where
  "attempted statuses c = (c \<in> set (map name statuses))"

definition latest_status :: "EndpointStatus list \<Rightarrow> string \<Rightarrow> EndpointStatus option" where
  "latest_status statuses c = List.find (\<lambda>s. name s = c) (rev statuses)"

definition endpoint_status :: "string \<Rightarrow> bool \<Rightarrow> int \<Rightarrow> string \<Rightarrow> EndpointStatus" where
  "endpoint_status n ok k msg = \<lparr>name = n, success = ok, records = k, error = msg\<rparr>"

definition only_trades_ok :: "EndpointStatus list" where
  \<comment> \<open>the statuses of a run whose transfer endpoints all failed and whose trades came\<close>
  "only_trades_ok =
     [endpoint_status ''deposit/history'' False 0 ''timeout'',
      endpoint_status ''withdraw/history'' False 0 ''timeout'',
      endpoint_status ''l1Metadata'' False 0 ''timeout'',
      endpoint_status ''trades'' True 3 [],
      endpoint_status ''accountTrades'' False 0 ''timeout'']"

definition all_core_down :: "EndpointStatus list" where
  "all_core_down =
     [endpoint_status ''deposit/history'' False 0 ''timeout'',
      endpoint_status ''withdraw/history'' False 0 ''timeout'',
      endpoint_status ''l1Metadata'' False 0 ''timeout'',
      endpoint_status ''trades'' False 0 ''empty trades response'']"

text \<open>
  An environment for the closed examples, whose raw values are numbers and plain strings:
  it parses no string and renders no float.
\<close>

definition plain_env :: py_env where
  "plain_env = \<lparr>float_of_str = (\<lambda>s. None), int_of_str = (\<lambda>s. None), repr_of = (\<lambda>v. [])\<rparr>"

definition deposit_row :: "real \<Rightarrow> unified_row" where
  \<comment> \<open>a deposit of the unified table\<close>
  "deposit_row a =
     \<lparr>event_group = Some ''transfer'', event_subtype = Some ''deposit'', row_type = None,
      pair = None, quantity = None, quote_value = Some a, signed_quote_value = Some 0,
      fee_usd = None, funding_usd = None, is_airdrop = None\<rparr>"

definition cashflow_row :: "real \<Rightarrow> unified_row" where
  \<comment> \<open>a trade of the unified table with the signed quote value \<open>v\<close>\<close>
  "cashflow_row v =
     \<lparr>event_group = Some ''trade'', event_subtype = Some ''trade'', row_type = None,
      pair = Some ''ETH'', quantity = Some 1, quote_value = Some \<bar>v\<bar>, signed_quote_value = Some v,
      fee_usd = Some 0, funding_usd = Some 0, is_airdrop = Some False\<rparr>"

text \<open>
  The role of the local account in a trade whose indices are integers: the taker when the
  trade's taker index is the account's, else the maker when its maker index is.
\<close>

datatype role = Taker | Maker | NoRole

definition account_role :: "pydict \<Rightarrow> int \<Rightarrow> role" where
  "account_role raw account_index =
     (if dict_get raw ''taker_account_index'' = PInt account_index then Taker
      else if dict_get raw ''maker_account_index'' = PInt account_index then Maker
      else NoRole)"

definition no_timestamp :: "pyval \<Rightarrow> timestamp option" where
  \<comment> \<open>a parser for records that carry no time\<close>
  "no_timestamp v = None"

definition maker_fill :: "int \<Rightarrow> pydict" where
  \<comment> \<open>a fill of size 1 at 100 whose taker, account 7, sold to the maker; no side and no fee given\<close>
  "maker_fill maker =
     [(''is_taker_ask'', PBool True), (''taker_account_index'', PInt 7),
      (''maker_account_index'', PInt maker), (''size'', PInt 1), (''price'', PInt 100),
      (''taker_fee'', PInt 5), (''maker_fee'', PInt 2)]"

definition negative_withdrawal :: pydict where
  \<comment> \<open>a withdrawal that the endpoint reports with a signed amount\<close>
  "negative_withdrawal = [(''type'', PStr ''withdraw''), (''amount'', PInt (- 5)), (''asset'', PStr ''USDC'')]"

definition fill_row :: "real \<Rightarrow> string \<Rightarrow> trade_row" where
  \<comment> \<open>one fill as two endpoints report it: the same key, another fee and source\<close>
  "fill_row fee src =
     \<lparr>t_timestamp = Some 1704067200000000, t_side = ''buy'', t_market = ''ETH'', t_price = 100,
      t_size = 1, t_notional_quote = 100, t_fee_quote = fee, t_funding_quote = 0,
      t_realized_pnl = 0, t_liquidation = False, t_tx_hash = PStr ''0xabc'', t_source = src,
      t_raw = []\<rparr>"

definition taker_fill_without_flag :: pydict where
  \<comment> \<open>a fill of size 1 at 100 taken by account 3, with no side and no taker flag\<close>
  "taker_fill_without_flag =
     [(''taker_account_index'', PInt 3), (''maker_account_index'', PInt 7),
      (''size'', PInt 1), (''price'', PInt 100), (''taker_fee'', PInt 5), (''maker_fee'', PInt 2)]"

text \<open>
  The ledger of a report balances within a tolerance when its seven entries are finite and
  the six terms, added as real numbers, are within the tolerance of the ending equity.
\<close>

definition ledger_entry :: "profit_report \<Rightarrow> string \<Rightarrow> fval" where
  \<comment> \<open>the ledger's entry under a label\<close>
  "ledger_entry rep label = (case map_of (reconciliation rep) label of None \<Rightarrow> NaN | Some v \<Rightarrow> v)"

definition ledger_terms :: "string list" where
  "ledger_terms =
     [''BeginningEquity(estimated)'', ''+NetDeposits'', ''+RealizedPnL'', ''+UnrealizedPnL'',
      ''+TokenSalesPnL'', ''+FeesFunding(net)'']"

fun finite_value :: "fval \<Rightarrow> real option" where
  "finite_value (Finite x) = Some x"
| "finite_value v = None"

definition ledger_gap :: "profit_report \<Rightarrow> real option" where
  \<comment> \<open>how far the sum of the six terms is from the ending equity; \<open>None\<close> when an entry is not finite\<close>
  "ledger_gap rep =
     (case those (map (\<lambda>l. finite_value (ledger_entry rep l)) ledger_terms) of
        None \<Rightarrow> None
      | Some xs \<Rightarrow>
          (case finite_value (ledger_entry rep ''=EndingEquity'') of
             None \<Rightarrow> None
           | Some e \<Rightarrow> Some \<bar>sum_list xs - e\<bar>))"

definition ledger_balanced :: "profit_report \<Rightarrow> real \<Rightarrow> bool" where
  "ledger_balanced rep tol = (case ledger_gap rep of None \<Rightarrow> False | Some g \<Rightarrow> g \<le> tol)"

definition within_magnitude :: "real \<Rightarrow> fval \<Rightarrow> bool" where
  \<comment> \<open>a finite value of at most the given absolute value\<close>
  "within_magnitude m v = (case v of Finite x \<Rightarrow> \<bar>x\<bar> \<le> m | _ \<Rightarrow> False)"

definition small_env :: ieee_env where
  \<comment> \<open>for the closed examples, whose columns have one cell: no text is parsed, and a column
      is added from the left\<close>
  "small_env = \<lparr>float_of_text = (\<lambda>s. None), column_sum = foldl fadd (Finite 0)\<rparr>"

definition withdrawal_row :: "real \<Rightarrow> unified_row" where
  \<comment> \<open>a withdrawal of the unified table\<close>
  "withdrawal_row a =
     \<lparr>event_group = Some ''transfer'', event_subtype = Some ''withdraw'', row_type = None,
      pair = None, quantity = None, quote_value = Some a, signed_quote_value = Some 0,
      fee_usd = None, funding_usd = None, is_airdrop = None\<rparr>"

definition double_sum :: "fval list \<Rightarrow> fval" where
  \<comment> \<open>the values added in doubles, from the left\<close>
  "double_sum vs = foldl fadd (Finite 0) vs"

section \<open>The inference of the initial capital\<close>

lemma infer_cases:
  "infer_initial_capital df e d p =
     (let r0 = e - d - p; proxy = max_capital_proxy df in
      if r0 < 0 then
        \<lparr>estimated_beginning_equity = proxy, inference_method = ''max_exposure_proxy'', confidence = ''low'',
         caveats = [NegativeReconciliation] @ (if d = 0 then [NoDeposits] else [])
                   @ (if proxy > 0 then [ProxyObserved proxy] else [])\<rparr>
      else if d = 0 \<and> proxy > r0 then
        \<lparr>estimated_beginning_equity = proxy, inference_method = ''max_exposure_proxy'', confidence = ''low'',
         caveats = [NoDeposits] @ (if proxy > 0 then [ProxyObserved proxy] else [])\<rparr>
      else
        \<lparr>estimated_beginning_equity = r0, inference_method = ''reconciliation'', confidence = ''medium'',
         caveats = (if d = 0 then [NoDeposits] else [])
                   @ (if proxy > 0 then [ProxyObserved proxy] else [])\<rparr>)"
  by (simp add: infer_initial_capital_def Let_def)

text \<open>
  C10. Whatever the input, the inference reports confidence "low" exactly when its method
  is "max\_exposure\_proxy" and confidence "medium" exactly when its method is
  "reconciliation"; it never reports "high".
\<close>

theorem infer_confidence_follows_method:
  "(confidence (infer_initial_capital df e d p) = ''low''
      \<longleftrightarrow> inference_method (infer_initial_capital df e d p) = ''max_exposure_proxy'')
   \<and> (confidence (infer_initial_capital df e d p) = ''medium''
      \<longleftrightarrow> inference_method (infer_initial_capital df e d p) = ''reconciliation'')
   \<and> confidence (infer_initial_capital df e d p) \<noteq> ''high''"
  by (simp add: infer_cases Let_def)

text \<open>
  When the reconciliation estimate is negative the inference drops it for the proxy it
  computed, names the method "max\_exposure\_proxy" and the confidence "low", and puts the
  caveat of the replacement first.
\<close>

lemma infer_negative_fallback:
  assumes "e - d - p < 0"
  shows "estimated_beginning_equity (infer_initial_capital df e d p) = max_capital_proxy df
       \<and> inference_method (infer_initial_capital df e d p) = ''max_exposure_proxy''
       \<and> confidence (infer_initial_capital df e d p) = ''low''
       \<and> caveats (infer_initial_capital df e d p) \<noteq> []
       \<and> hd (caveats (infer_initial_capital df e d p)) = NegativeReconciliation"
  using assms by (simp add: infer_cases Let_def)

subsection \<open>The exposure proxy\<close>

lemma spec_exposure_proxy_nonneg:
  assumes "list_all (\<lambda>x. 0 \<le> x) running"
  shows "spec_exposure_proxy running = 0"
proof (cases running)
  case Nil
  then show ?thesis by (simp add: spec_exposure_proxy_def)
next
  case (Cons x xs)
  have "list_all (\<lambda>y. 0 \<le> y) ys \<Longrightarrow> 0 \<le> a \<Longrightarrow> 0 \<le> fold min ys a" for ys and a :: real
    by (induction ys arbitrary: a) auto
  with assms Cons have "0 \<le> series_min running" by simp
  with Cons show ?thesis by (simp add: spec_exposure_proxy_def)
qed

text \<open>
  The deposit inference of transform.py computes the proxy as the specification words it:
  0 without trades, else the larger of 0 and minus the least running sum.
\<close>

lemma exposure_proxy_is_spec:
  "exposure_proxy t = spec_exposure_proxy (cumsum (map trade_signed t))"
  by (cases t) (simp_all add: exposure_proxy_def spec_exposure_proxy_def cumsum_def)

text \<open>
  The proxy of the inference engine is the specification's exactly when the table is empty
  or the least running sum is not positive.
\<close>

lemma max_capital_proxy_agrees_iff:
  "max_capital_proxy df = spec_exposure_proxy (running_signed df)
   \<longleftrightarrow> running_signed df = [] \<or> series_min (running_signed df) \<le> 0"
  by (auto simp: max_capital_proxy_def spec_exposure_proxy_def Let_def)

text \<open>
  C2. The proxy of the inference engine is meant to be the larger of 0 and minus the least
  running sum of the signed quote values, hence 0 when the running sum is never negative.
  On a table of one row with the signed quote value 5 the running sum is 5, never
  negative, and the specification's proxy is 0; the function gives 5, the absolute value
  of the least running sum.
\<close>

theorem max_capital_proxy_positive_running:
  "running_signed [cashflow_row 5] = [5]
   \<and> list_all (\<lambda>x. 0 \<le> x) (running_signed [cashflow_row 5])
   \<and> spec_exposure_proxy (running_signed [cashflow_row 5]) = 0
   \<and> max_capital_proxy [cashflow_row 5] = 5"
  by (simp add: max_capital_proxy_def running_signed_def cumsum_def fillna0_def cashflow_row_def
      spec_exposure_proxy_def)

text \<open>
  C3. With a negative reconciliation estimate the inference is to return the exposure
  proxy, the larger of 0 and minus the least running sum, as its estimate. For an ending
  equity of 0, net deposits of 1000, no PnL and a table of one row with the signed quote
  value 5, the estimate 0 - 1000 - 0 is negative and the exposure proxy is 0, yet the
  inference returns 5, with the method "max\_exposure\_proxy" and the confidence "low":
  the same absolute value as in C2 stands where the proxy should.
\<close>

theorem infer_negative_reconciliation_positive_running:
  "(0::real) - 1000 - 0 < 0
   \<and> spec_exposure_proxy (running_signed [cashflow_row 5]) = 0
   \<and> estimated_beginning_equity (infer_initial_capital [cashflow_row 5] 0 1000 0) = 5
   \<and> inference_method (infer_initial_capital [cashflow_row 5] 0 1000 0) = ''max_exposure_proxy''
   \<and> confidence (infer_initial_capital [cashflow_row 5] 0 1000 0) = ''low''
   \<and> caveats (infer_initial_capital [cashflow_row 5] 0 1000 0)
       = [NegativeReconciliation, ProxyObserved 5]"
  by (simp add: infer_cases Let_def max_capital_proxy_def running_signed_def cumsum_def fillna0_def
      cashflow_row_def spec_exposure_proxy_def)

section \<open>Rounding to a double\<close>

lemma round_half_even_error: "\<bar>of_int (round_half_even z) - z\<bar> \<le> 1 / 2"
  unfolding round_half_even_def Let_def by (auto; linarith)

lemma round_half_even_of_int: "round_half_even (of_int i) = i"
  by (simp add: round_half_even_def)

lemma quantum_bound:
  assumes "x \<noteq> 0"
  shows "2 powr (of_int (double_exponent x) - 52) / 2 \<le> \<bar>x\<bar> / 2 ^ 53 + 2 powr (- 1075)"
proof (cases "- 1022 \<le> \<lfloor>log 2 \<bar>x\<bar>\<rfloor>")
  case True
  then have e: "double_exponent x = \<lfloor>log 2 \<bar>x\<bar>\<rfloor>" by (simp add: double_exponent_def)
  have "2 powr (of_int \<lfloor>log 2 \<bar>x\<bar>\<rfloor>) \<le> 2 powr (log 2 \<bar>x\<bar>)"
    by (rule powr_mono) simp_all
  also have "\<dots> = \<bar>x\<bar>" using assms by simp
  finally have le: "2 powr (of_int \<lfloor>log 2 \<bar>x\<bar>\<rfloor>) \<le> \<bar>x\<bar>" .
  have "(2::real) powr (of_int (double_exponent x) - 52) / 2 = 2 powr (of_int \<lfloor>log 2 \<bar>x\<bar>\<rfloor>) / 2 ^ 53"
    by (simp add: e powr_diff)
  also have "\<dots> \<le> \<bar>x\<bar> / 2 ^ 53" using le by (simp add: divide_right_mono)
  finally have "2 powr (of_int (double_exponent x) - 52) / 2 \<le> \<bar>x\<bar> / 2 ^ 53" .
  moreover have "0 \<le> (2::real) powr (- 1075)" by simp
  ultimately show ?thesis by linarith
next
  case False
  then have e: "double_exponent x = - 1022" by (simp add: double_exponent_def)
  have "(2::real) powr (of_int (double_exponent x) - 52) / 2 = 2 powr (- 1075)"
    by (simp add: e powr_diff powr_minus)
  then show ?thesis by simp
qed

lemma tiny_le: "(2::real) powr (- 1075) \<le> 1 / 2 ^ 53"
proof -
  have "(2::real) powr (- 1075) \<le> 2 powr (- 53)" by (rule powr_mono) simp_all
  also have "\<dots> = 1 / 2 ^ 53" by (simp add: powr_minus inverse_eq_divide)
  finally show ?thesis .
qed

lemma round_double_near:
  assumes "x \<noteq> 0"
  defines "q \<equiv> 2 powr (of_int (double_exponent x) - 52)"
  shows "\<bar>of_int (round_half_even (x / q)) * q - x\<bar> \<le> \<bar>x\<bar> / 2 ^ 53 + 2 powr (- 1075)"
proof -
  have q: "0 < q" by (simp add: q_def)
  have "of_int (round_half_even (x / q)) * q - x = (of_int (round_half_even (x / q)) - x / q) * q"
    using q by (simp add: left_diff_distrib)
  then have "\<bar>of_int (round_half_even (x / q)) * q - x\<bar> = \<bar>of_int (round_half_even (x / q)) - x / q\<bar> * q"
    using q by (simp add: abs_mult)
  also have "\<dots> \<le> (1 / 2) * q"
    using q round_half_even_error [of "x / q"] by (intro mult_right_mono) simp_all
  also have "\<dots> = q / 2" by simp
  also have "\<dots> \<le> \<bar>x\<bar> / 2 ^ 53 + 2 powr (- 1075)"
    unfolding q_def using assms(1) by (rule quantum_bound)
  finally show ?thesis .
qed

lemma round_double_error:
  assumes "\<bar>x\<bar> \<le> B" and "B \<le> 2 ^ 60"
  shows "\<exists>y. round_double x = Finite y \<and> \<bar>y - x\<bar> \<le> (B + 1) / 2 ^ 53"
proof (cases "x = 0")
  case True
  with assms show ?thesis by (simp add: round_double_def)
next
  case False
  define q :: real where "q = 2 powr (of_int (double_exponent x) - 52)"
  define y where "y = of_int (round_half_even (x / q)) * q"
  have "\<bar>y - x\<bar> \<le> \<bar>x\<bar> / 2 ^ 53 + 2 powr (- 1075)"
    unfolding y_def q_def using False by (rule round_double_near)
  also have "\<dots> \<le> B / 2 ^ 53 + 1 / 2 ^ 53"
    using assms(1) tiny_le by (intro add_mono divide_right_mono) simp_all
  finally have err: "\<bar>y - x\<bar> \<le> (B + 1) / 2 ^ 53" by (simp add: add_divide_distrib)
  have "0 \<le> B" using assms(1) by linarith
  have "\<bar>y\<bar> \<le> \<bar>x\<bar> + \<bar>y - x\<bar>" by linarith
  also have "\<dots> \<le> B + (B + 1) / 2 ^ 53" using assms(1) err by linarith
  also have "\<dots> < 2 ^ 61"
  proof -
    from assms(2) have "B \<le> 1152921504606846976" by simp
    moreover from this have "(B + 1) / 9007199254740992 \<le> 256" by (simp add: divide_le_eq)
    ultimately have "B + (B + 1) / 9007199254740992 < 2305843009213693952" by linarith
    then show ?thesis by simp
  qed
  also have "(2::real) ^ 61 = 2 powr 61" by simp
  also have "\<dots> \<le> 2 powr 1024" by (rule powr_mono) simp_all
  finally have "\<not> 2 powr 1024 \<le> \<bar>y\<bar>" by simp
  with False err show ?thesis
    by (simp add: round_double_def Let_def q_def [symmetric] y_def [symmetric])
qed

lemma fadd_finite:
  assumes "\<bar>x\<bar> \<le> a" and "\<bar>y\<bar> \<le> b" and "a + b \<le> 2 ^ 53 - 1"
  obtains z where "fadd (Finite x) (Finite y) = Finite z"
    and "\<bar>z - (x + y)\<bar> \<le> (a + b + 1) / 2 ^ 53" and "\<bar>z\<bar> \<le> a + b + 1"
proof -
  have B: "\<bar>x + y\<bar> \<le> a + b" using assms(1,2) by linarith
  have "a + b \<le> 2 ^ 60" using assms(3) by simp
  with B obtain z where z: "round_double (x + y) = Finite z"
    and err: "\<bar>z - (x + y)\<bar> \<le> (a + b + 1) / 2 ^ 53"
    using round_double_error [of "x + y" "a + b"] by blast
  have "(a + b + 1) / 2 ^ 53 \<le> 1" using assms(3) by (simp add: divide_le_eq)
  with err B have "\<bar>z\<bar> \<le> a + b + 1" by linarith
  with z err that show ?thesis by simp
qed

lemma fsub_finite:
  assumes "\<bar>x\<bar> \<le> a" and "\<bar>y\<bar> \<le> b" and "a + b \<le> 2 ^ 53 - 1"
  obtains z where "fsub (Finite x) (Finite y) = Finite z"
    and "\<bar>z - (x - y)\<bar> \<le> (a + b + 1) / 2 ^ 53" and "\<bar>z\<bar> \<le> a + b + 1"
proof -
  have "\<bar>- y\<bar> \<le> b" using assms(2) by simp
  from fadd_finite [OF assms(1) this assms(3)] obtain z
    where "fadd (Finite x) (Finite (- y)) = Finite z"
      and "\<bar>z - (x + - y)\<bar> \<le> (a + b + 1) / 2 ^ 53" and "\<bar>z\<bar> \<le> a + b + 1" by blast
  with that show ?thesis by (simp add: fsub_def)
qed

lemma infer64_cases:
  "infer_initial_capital64 df e d p =
     (let r0 = fsub (fsub e d) p; proxy = max_capital_proxy64 df in
      if flt r0 (Finite 0) then
        \<lparr>estimated_beginning_equity64 = proxy, inference_method64 = ''max_exposure_proxy'',
         confidence64 = ''low'',
         caveats64 = [NegativeReconciliation64] @ (if feq d (Finite 0) then [NoDeposits64] else [])
                   @ (if flt (Finite 0) proxy then [ProxyObserved64 proxy] else [])\<rparr>
      else if feq d (Finite 0) \<and> flt r0 proxy then
        \<lparr>estimated_beginning_equity64 = proxy, inference_method64 = ''max_exposure_proxy'',
         confidence64 = ''low'',
         caveats64 = [NoDeposits64] @ (if flt (Finite 0) proxy then [ProxyObserved64 proxy] else [])\<rparr>
      else
        \<lparr>estimated_beginning_equity64 = r0, inference_method64 = ''reconciliation'',
         confidence64 = ''medium'',
         caveats64 = (if feq d (Finite 0) then [NoDeposits64] else [])
                   @ (if flt (Finite 0) proxy then [ProxyObserved64 proxy] else [])\<rparr>)"
  by (simp add: infer_initial_capital64_def Let_def)

lemma infer64_reconciliation_estimate:
  assumes "inference_method64 (infer_initial_capital64 df e d p) = ''reconciliation''"
  shows "estimated_beginning_equity64 (infer_initial_capital64 df e d p) = fsub (fsub e d) p"
  using assms by (auto simp: infer64_cases Let_def split: if_splits)

lemma ledger_of_report:
  "reconciliation (report_of E df kw rp up ee) =
     [(''BeginningEquity(estimated)'',
         estimated_beginning_equity64 (initial_capital_inference (report_of E df kw rp up ee))),
      (''+NetDeposits'', net_deposits (summary (report_of E df kw rp up ee))),
      (''+RealizedPnL'', rp),
      (''+UnrealizedPnL'', up),
      (''+TokenSalesPnL'', token_sales_pnl (summary (report_of E df kw rp up ee))),
      (''+FeesFunding(net)'', fees_plus_funding (summary (report_of E df kw rp up ee))),
      (''=EndingEquity'', ee)]"
  by (simp add: report_of_def Let_def)

lemma inference_of_report:
  "initial_capital_inference (report_of E df kw rp up ee) =
     infer_initial_capital64 df ee (net_deposits (summary (report_of E df kw rp up ee)))
       (fadd (fadd (fadd rp up) (fees_plus_funding (summary (report_of E df kw rp up ee))))
             (token_sales_pnl (summary (report_of E df kw rp up ee))))"
  by (simp add: report_of_def Let_def)

lemma build_profit_report_Inr:
  assumes "build_profit_report E df snap kw = Inr rep"
  obtains rp up ee where "rep = report_of E df kw rp up ee"
  using assms by (auto simp: build_profit_report_def split: sum.splits)

lemma within_magnitudeE:
  assumes "within_magnitude m v"
  obtains x where "v = Finite x" and "\<bar>x\<bar> \<le> m"
  using assms by (cases v) (simp_all add: within_magnitude_def)

lemma floor_log2_eq:
  assumes "2 ^ k \<le> a" and "a < 2 ^ Suc k"
  shows "\<lfloor>log 2 a\<rfloor> = int k"
proof -
  have "0 < (2::real) ^ k" by simp
  with assms(1) have "0 < a" by linarith
  have "2 powr (of_int (int k)) \<le> a" using assms(1) by (simp add: powr_realpow)
  moreover have "a < 2 powr (of_int (int k + 1))"
  proof -
    have "(2::real) powr (of_int (int k + 1)) = 2 powr (real (Suc k))" by (simp add: add.commute)
    also have "\<dots> = 2 ^ Suc k" by (rule powr_realpow) simp
    finally show ?thesis using assms(2) by simp
  qed
  ultimately show ?thesis
    using \<open>0 < a\<close> by (simp add: floor_log_eq_powr_iff)
qed

lemma round_double_of_int:
  assumes "\<bar>i\<bar> \<le> 2 ^ 53"
  shows "round_double (of_int i) = Finite (of_int i)"
proof (cases "i = 0")
  case True
  then show ?thesis by (simp add: round_double_def)
next
  case False
  define a :: real where "a = \<bar>of_int i\<bar>"
  have a1: "1 \<le> a" using False by (simp add: a_def)
  have a2: "a \<le> 2 ^ 53"
  proof -
    have "real_of_int \<bar>i\<bar> \<le> real_of_int (2 ^ 53)" using assms by (simp only: of_int_le_iff)
    then show ?thesis by (simp add: a_def)
  qed
  define E where "E = \<lfloor>log 2 a\<rfloor>"
  have E0: "0 \<le> E" using a1 by (simp add: E_def)
  have "log 2 a \<le> 53" using a1 a2 by (simp add: log_le_iff)
  then have E53: "E \<le> 53" unfolding E_def by linarith
  have de: "double_exponent (of_int i) = E"
    using E0 by (simp add: double_exponent_def E_def a_def)
  define q :: real where "q = 2 powr (of_int (double_exponent (of_int i)) - 52)"
  have "\<exists>m. of_int i / q = of_int m"
  proof (cases "E \<le> 52")
    case True
    define n where "n = nat (52 - E)"
    have n: "of_int E - 52 = - real n" using True by (simp add: n_def)
    have "q = 1 / 2 ^ n"
      by (simp add: q_def de n powr_minus powr_realpow inverse_eq_divide)
    then have "of_int i / q = of_int (i * 2 ^ n)" by simp
    then show ?thesis ..
  next
    case False
    with E53 have E: "E = 53" by simp
    then have q2: "q = 2" by (simp add: q_def de)
    have "2 powr (of_int E) \<le> 2 powr (log 2 a)" unfolding E_def by (rule powr_mono) simp_all
    with a1 have "2 ^ 53 \<le> a" by (simp add: E)
    with a2 have "a = 2 ^ 53" by simp
    then have "\<bar>i\<bar> = 2 ^ 53" by (simp add: a_def)
    then have "i = 2 ^ 53 \<or> i = - (2 ^ 53)" by linarith
    then have "of_int i / q = of_int (i div 2)" by (auto simp: q2)
    then show ?thesis ..
  qed
  then obtain m where m: "of_int i / q = of_int m" ..
  have q0: "0 < q" by (simp add: q_def)
  have y: "of_int (round_half_even (of_int i / q)) * q = of_int i"
    unfolding m round_half_even_of_int using m q0 by (simp add: field_simps)
  have "\<bar>real_of_int i\<bar> \<le> 2 powr 53" using a2 by (simp add: a_def)
  also have "(2::real) powr 53 < 2 powr 1024" by (rule powr_less_mono) simp_all
  finally have "\<not> 2 powr 1024 \<le> \<bar>real_of_int i\<bar>" by simp
  with \<open>i \<noteq> 0\<close> show ?thesis
    by (simp add: round_double_def Let_def q_def [symmetric] y)
qed

lemma round_double_numeral:
  "(numeral n :: int) \<le> 2 ^ 53 \<Longrightarrow> round_double (numeral n) = Finite (numeral n)"
  using round_double_of_int [of "numeral n"] by simp

lemma round_double_neg_numeral:
  "(numeral n :: int) \<le> 2 ^ 53 \<Longrightarrow> round_double (- numeral n) = Finite (- numeral n)"
  using round_double_of_int [of "- numeral n"] by simp

lemma round_double_0: "round_double 0 = Finite 0"
  by (simp add: round_double_def)

lemma round_double_1: "round_double 1 = Finite 1"
  using round_double_of_int [of 1] by simp

lemmas round_double_exact = round_double_numeral round_double_neg_numeral round_double_0 round_double_1

lemma round_double_tie: "round_double 9007199254740993 = Finite 9007199254740992"
proof -
  define x :: real where "x = 2 ^ 53 + 1"
  have x0: "x \<noteq> 0" "0 < x" by (simp_all add: x_def)
  have "\<lfloor>log 2 \<bar>x\<bar>\<rfloor> = int 53"
    by (rule floor_log2_eq) (simp_all add: x_def)
  then have de: "double_exponent x = 53"
    by (simp add: double_exponent_def)
  have q: "(2::real) powr (of_int (double_exponent x) - 52) = 2"
    by (simp add: de)
  have fl2: "\<lfloor>x / 2\<rfloor> = 2 ^ 52"
    by (simp add: floor_eq_iff x_def)
  have "x / 2 - of_int \<lfloor>x / 2\<rfloor> = 1 / 2"
    unfolding fl2 by (simp add: x_def)
  then have r: "round_half_even (x / 2) = 2 ^ 52"
    unfolding round_half_even_def Let_def by (simp add: fl2)
  have big: "\<not> (2::real) powr 1024 \<le> 2 ^ 53"
  proof -
    have "(2::real) ^ 53 < 2 powr 54" by simp
    also have "(2::real) powr 54 \<le> 2 powr 1024" by (rule powr_mono) simp_all
    finally show ?thesis by simp
  qed
  have "round_double x = Finite (2 ^ 53)"
    unfolding round_double_def Let_def q r using big x0 by simp
  then show ?thesis by (simp add: x_def)
qed

section \<open>The reconciliation ledger of the profit report\<close>

text \<open>
  The inference in doubles agrees with the inference over the reals on finite numbers, when
  the two subtractions and the running sums of the proxy are exact.
\<close>

lemma infer64_exact:
  assumes "fsub (fsub (Finite e) (Finite d)) (Finite p) = Finite (e - d - p)"
    and "max_capital_proxy64 df = Finite (max_capital_proxy df)"
  shows "estimated_beginning_equity64 (infer_initial_capital64 df (Finite e) (Finite d) (Finite p))
           = Finite (estimated_beginning_equity (infer_initial_capital df e d p))
       \<and> inference_method64 (infer_initial_capital64 df (Finite e) (Finite d) (Finite p))
           = inference_method (infer_initial_capital df e d p)
       \<and> confidence64 (infer_initial_capital64 df (Finite e) (Finite d) (Finite p))
           = confidence (infer_initial_capital df e d p)"
  by (simp add: infer64_cases infer_cases Let_def assms)

lemma ledger_reconciliation_values:
  assumes "build_profit_report E df snap kw = Inr rep"
    and "inference_method64 (initial_capital_inference rep) = ''reconciliation''"
    and "list_all (\<lambda>l. within_magnitude (10 ^ 8) (ledger_entry rep l))
           [''+NetDeposits'', ''+RealizedPnL'', ''+UnrealizedPnL'', ''+TokenSalesPnL'',
            ''+FeesFunding(net)'', ''=EndingEquity'']"
  obtains b d r u t f e where
    "reconciliation rep =
       [(''BeginningEquity(estimated)'', Finite b), (''+NetDeposits'', Finite d),
        (''+RealizedPnL'', Finite r), (''+UnrealizedPnL'', Finite u), (''+TokenSalesPnL'', Finite t),
        (''+FeesFunding(net)'', Finite f), (''=EndingEquity'', Finite e)]"
    and "\<bar>d\<bar> \<le> 10 ^ 8" and "\<bar>r\<bar> \<le> 10 ^ 8" and "\<bar>u\<bar> \<le> 10 ^ 8"
    and "\<bar>t\<bar> \<le> 10 ^ 8" and "\<bar>f\<bar> \<le> 10 ^ 8" and "\<bar>e\<bar> \<le> 10 ^ 8"
    and "\<bar>b\<bar> \<le> 600000005"
    and "\<bar>b + d + r + u + t + f - e\<bar> \<le> 1700000012 / 2 ^ 53"
proof -
  from assms(1) obtain rp up ee where rep: "rep = report_of E df kw rp up ee"
    by (rule build_profit_report_Inr)
  define nd where "nd = net_deposits (summary rep)"
  define tok where "tok = token_sales_pnl (summary rep)"
  define ff where "ff = fees_plus_funding (summary rep)"
  define est where "est = estimated_beginning_equity64 (initial_capital_inference rep)"
  have led: "reconciliation rep =
     [(''BeginningEquity(estimated)'', est), (''+NetDeposits'', nd), (''+RealizedPnL'', rp),
      (''+UnrealizedPnL'', up), (''+TokenSalesPnL'', tok), (''+FeesFunding(net)'', ff),
      (''=EndingEquity'', ee)]"
    unfolding rep nd_def tok_def ff_def est_def by (rule ledger_of_report)
  have inf: "initial_capital_inference rep
             = infer_initial_capital64 df ee nd (fadd (fadd (fadd rp up) ff) tok)"
    unfolding rep nd_def tok_def ff_def by (rule inference_of_report)
  from assms(2) have est: "est = fsub (fsub ee nd) (fadd (fadd (fadd rp up) ff) tok)"
    unfolding est_def inf by (rule infer64_reconciliation_estimate)
  from assms(3) have w: "within_magnitude (10 ^ 8) nd" "within_magnitude (10 ^ 8) rp"
    "within_magnitude (10 ^ 8) up" "within_magnitude (10 ^ 8) tok"
    "within_magnitude (10 ^ 8) ff" "within_magnitude (10 ^ 8) ee"
    by (simp_all add: ledger_entry_def led)
  from w(1) obtain d where d: "nd = Finite d" "\<bar>d\<bar> \<le> 10 ^ 8" by (rule within_magnitudeE)
  from w(2) obtain r where r: "rp = Finite r" "\<bar>r\<bar> \<le> 10 ^ 8" by (rule within_magnitudeE)
  from w(3) obtain u where u: "up = Finite u" "\<bar>u\<bar> \<le> 10 ^ 8" by (rule within_magnitudeE)
  from w(4) obtain t where t: "tok = Finite t" "\<bar>t\<bar> \<le> 10 ^ 8" by (rule within_magnitudeE)
  from w(5) obtain f where f: "ff = Finite f" "\<bar>f\<bar> \<le> 10 ^ 8" by (rule within_magnitudeE)
  from w(6) obtain e where e: "ee = Finite e" "\<bar>e\<bar> \<le> 10 ^ 8" by (rule within_magnitudeE)
  obtain z1 where z1: "fadd (Finite r) (Finite u) = Finite z1"
    "\<bar>z1 - (r + u)\<bar> \<le> (10 ^ 8 + 10 ^ 8 + 1) / 2 ^ 53" "\<bar>z1\<bar> \<le> 10 ^ 8 + 10 ^ 8 + 1"
    using fadd_finite [OF r(2) u(2)] by auto
  obtain z2 where z2: "fadd (Finite z1) (Finite f) = Finite z2"
    "\<bar>z2 - (z1 + f)\<bar> \<le> ((10 ^ 8 + 10 ^ 8 + 1) + 10 ^ 8 + 1) / 2 ^ 53"
    "\<bar>z2\<bar> \<le> (10 ^ 8 + 10 ^ 8 + 1) + 10 ^ 8 + 1"
    using fadd_finite [OF z1(3) f(2)] by auto
  obtain z3 where z3: "fadd (Finite z2) (Finite t) = Finite z3"
    "\<bar>z3 - (z2 + t)\<bar> \<le> (((10 ^ 8 + 10 ^ 8 + 1) + 10 ^ 8 + 1) + 10 ^ 8 + 1) / 2 ^ 53"
    "\<bar>z3\<bar> \<le> ((10 ^ 8 + 10 ^ 8 + 1) + 10 ^ 8 + 1) + 10 ^ 8 + 1"
    using fadd_finite [OF z2(3) t(2)] by auto
  obtain z4 where z4: "fsub (Finite e) (Finite d) = Finite z4"
    "\<bar>z4 - (e - d)\<bar> \<le> (10 ^ 8 + 10 ^ 8 + 1) / 2 ^ 53" "\<bar>z4\<bar> \<le> 10 ^ 8 + 10 ^ 8 + 1"
    using fsub_finite [OF e(2) d(2)] by auto
  obtain z5 where z5: "fsub (Finite z4) (Finite z3) = Finite z5"
    "\<bar>z5 - (z4 - z3)\<bar>
       \<le> ((10 ^ 8 + 10 ^ 8 + 1) + (((10 ^ 8 + 10 ^ 8 + 1) + 10 ^ 8 + 1) + 10 ^ 8 + 1) + 1) / 2 ^ 53"
    "\<bar>z5\<bar> \<le> (10 ^ 8 + 10 ^ 8 + 1) + (((10 ^ 8 + 10 ^ 8 + 1) + 10 ^ 8 + 1) + 10 ^ 8 + 1) + 1"
    using fsub_finite [OF z4(3) z3(3)] by auto
  have estv: "est = Finite z5"
    unfolding est d(1) r(1) u(1) t(1) f(1) e(1) z1(1) z2(1) z3(1) z4(1) by (rule z5(1))
  define a1 where "a1 = z1 - (r + u)"
  define a2 where "a2 = z2 - (z1 + f)"
  define a3 where "a3 = z3 - (z2 + t)"
  define a4 where "a4 = z4 - (e - d)"
  define a5 where "a5 = z5 - (z4 - z3)"
  have b: "\<bar>a1\<bar> \<le> 200000001 / 2 ^ 53" "\<bar>a2\<bar> \<le> 300000002 / 2 ^ 53"
    "\<bar>a3\<bar> \<le> 400000003 / 2 ^ 53" "\<bar>a4\<bar> \<le> 200000001 / 2 ^ 53"
    "\<bar>a5\<bar> \<le> 600000005 / 2 ^ 53"
    using z1(2) z2(2) z3(2) z4(2) z5(2) unfolding a1_def a2_def a3_def a4_def a5_def by simp_all
  have "z5 + d + r + u + t + f - e = a5 + a4 - a3 - a2 - a1"
    by (simp add: a1_def a2_def a3_def a4_def a5_def)
  also have "\<bar>\<dots>\<bar> \<le> \<bar>a5\<bar> + \<bar>a4\<bar> + \<bar>a3\<bar> + \<bar>a2\<bar> + \<bar>a1\<bar>" by linarith
  also have "\<dots> \<le> 600000005 / 2 ^ 53 + 200000001 / 2 ^ 53 + 400000003 / 2 ^ 53
                   + 300000002 / 2 ^ 53 + 200000001 / 2 ^ 53"
    using b by (intro add_mono)
  also have "\<dots> = 1700000012 / 2 ^ 53" by simp
  finally have gap: "\<bar>z5 + d + r + u + t + f - e\<bar> \<le> 1700000012 / 2 ^ 53" .
  have z5b: "\<bar>z5\<bar> \<le> 600000005" using z5(3) by simp
  have "reconciliation rep =
       [(''BeginningEquity(estimated)'', Finite z5), (''+NetDeposits'', Finite d),
        (''+RealizedPnL'', Finite r), (''+UnrealizedPnL'', Finite u), (''+TokenSalesPnL'', Finite t),
        (''+FeesFunding(net)'', Finite f), (''=EndingEquity'', Finite e)]"
    by (simp add: led estv d r u t f e)
  from that [OF this d(2) r(2) u(2) t(2) f(2) e(2) z5b gap] show ?thesis .
qed

lemma fallback_report:
  "build_profit_report small_env [deposit_row 1000] [(''ending_equity'', PFloat 0)] ''LIT''
   = Inr (report_of small_env [deposit_row 1000] ''LIT'' (Finite 0) (Finite 0) (Finite 0))"
  by (simp add: build_profit_report_def dict_get_def round_double_exact)

lemma fallback_ledger:
  "reconciliation (report_of small_env [deposit_row 1000] ''LIT'' (Finite 0) (Finite 0) (Finite 0))
   = [(''BeginningEquity(estimated)'', Finite 0), (''+NetDeposits'', Finite 1000),
      (''+RealizedPnL'', Finite 0), (''+UnrealizedPnL'', Finite 0), (''+TokenSalesPnL'', Finite 0),
      (''+FeesFunding(net)'', Finite 0), (''=EndingEquity'', Finite 0)]"
  by (simp add: report_of_def Let_def token_sell_summary_def small_env_def deposit_row_def cell64_def
      str_contains_nocase_def fsub_def round_double_exact infer64_cases max_capital_proxy64_def
      cumsum64_def series_min64_def)

text \<open>
  C1 as stated fails: with a deposit of 1000, an ending equity of 0 and no PnL the
  reconciliation estimate -1000 is negative, the proxy 0 replaces it, and the six ledger
  terms sum to 1000 while the ledger's ending equity is 0.
\<close>

theorem ledger_fallback_counterexample:
  "build_profit_report small_env [deposit_row 1000] [(''ending_equity'', PFloat 0)] ''LIT''
     = Inr (report_of small_env [deposit_row 1000] ''LIT'' (Finite 0) (Finite 0) (Finite 0))
   \<and> inference_method64 (initial_capital_inference
         (report_of small_env [deposit_row 1000] ''LIT'' (Finite 0) (Finite 0) (Finite 0)))
       = ''max_exposure_proxy''
   \<and> ledger_gap (report_of small_env [deposit_row 1000] ''LIT'' (Finite 0) (Finite 0) (Finite 0))
       = Some 1000
   \<and> \<not> ledger_balanced (report_of small_env [deposit_row 1000] ''LIT'' (Finite 0) (Finite 0) (Finite 0))
         (1 / 10 ^ 6)"
proof -
  let ?rep = "report_of small_env [deposit_row 1000] ''LIT'' (Finite 0) (Finite 0) (Finite 0)"
  have m: "inference_method64 (initial_capital_inference ?rep) = ''max_exposure_proxy''"
    by (simp add: report_of_def Let_def token_sell_summary_def small_env_def deposit_row_def cell64_def
      str_contains_nocase_def fsub_def round_double_exact infer64_cases max_capital_proxy64_def
      cumsum64_def series_min64_def)
  have g: "ledger_gap ?rep = Some 1000"
    by (simp add: ledger_gap_def ledger_terms_def ledger_entry_def fallback_ledger)
  from fallback_report m g show ?thesis by (simp add: ledger_balanced_def)
qed

lemma witness_report:
  "build_profit_report small_env [deposit_row 1000]
      [(''ending_equity'', PInt 1050), (''realized_pnl'', PInt 50)] ''LIT''
   = Inr (report_of small_env [deposit_row 1000] ''LIT'' (Finite 50) (Finite 0) (Finite 1050))"
  by (simp add: build_profit_report_def dict_get_def round_double_exact)

lemma witness_ledger:
  "reconciliation (report_of small_env [deposit_row 1000] ''LIT'' (Finite 50) (Finite 0) (Finite 1050))
   = [(''BeginningEquity(estimated)'', Finite 0), (''+NetDeposits'', Finite 1000),
      (''+RealizedPnL'', Finite 50), (''+UnrealizedPnL'', Finite 0), (''+TokenSalesPnL'', Finite 0),
      (''+FeesFunding(net)'', Finite 0), (''=EndingEquity'', Finite 1050)]"
  by (simp add: report_of_def Let_def token_sell_summary_def small_env_def deposit_row_def cell64_def
      str_contains_nocase_def fsub_def round_double_exact infer64_cases max_capital_proxy64_def
      cumsum64_def series_min64_def)

text \<open>
  C1, amended. For every profit report whose beginning equity comes from reconciliation
  (the inference's method is "reconciliation") and whose net deposits, realized PnL,
  unrealized PnL, token sales PnL, net fees and funding and ending equity are finite
  doubles of absolute value at most 10^8, the ledger's seven entries are finite and the
  beginning equity, net deposits, realized PnL, unrealized PnL, token sales PnL and net fees
  and funding sum, as real numbers, to within 1e-6 of the ending equity.
\<close>

theorem ledger_balanced_reconciliation:
  assumes "build_profit_report E df snap kw = Inr rep"
    and "inference_method64 (initial_capital_inference rep) = ''reconciliation''"
    and "list_all (\<lambda>l. within_magnitude (10 ^ 8) (ledger_entry rep l))
           [''+NetDeposits'', ''+RealizedPnL'', ''+UnrealizedPnL'', ''+TokenSalesPnL'',
            ''+FeesFunding(net)'', ''=EndingEquity'']"
  shows "ledger_balanced rep (1 / 10 ^ 6)"
proof -
  from assms obtain b d r u t f e where
    led: "reconciliation rep =
       [(''BeginningEquity(estimated)'', Finite b), (''+NetDeposits'', Finite d),
        (''+RealizedPnL'', Finite r), (''+UnrealizedPnL'', Finite u), (''+TokenSalesPnL'', Finite t),
        (''+FeesFunding(net)'', Finite f), (''=EndingEquity'', Finite e)]"
    and gap: "\<bar>b + d + r + u + t + f - e\<bar> \<le> 1700000012 / 2 ^ 53"
    by (rule ledger_reconciliation_values)
  have "ledger_gap rep = Some \<bar>b + d + r + u + t + f - e\<bar>"
    by (simp add: ledger_gap_def ledger_terms_def ledger_entry_def led)
  moreover have "(1700000012 :: real) / 2 ^ 53 \<le> 1 / 10 ^ 6" by simp
  ultimately show ?thesis using gap by (simp add: ledger_balanced_def)
qed

theorem ledger_balanced_reconciliation_witness:
  "build_profit_report small_env [deposit_row 1000]
      [(''ending_equity'', PInt 1050), (''realized_pnl'', PInt 50)] ''LIT''
     = Inr (report_of small_env [deposit_row 1000] ''LIT'' (Finite 50) (Finite 0) (Finite 1050))
   \<and> inference_method64 (initial_capital_inference
         (report_of small_env [deposit_row 1000] ''LIT'' (Finite 50) (Finite 0) (Finite 1050)))
       = ''reconciliation''
   \<and> list_all (\<lambda>l. within_magnitude (10 ^ 8)
         (ledger_entry (report_of small_env [deposit_row 1000] ''LIT'' (Finite 50) (Finite 0) (Finite 1050)) l))
        [''+NetDeposits'', ''+RealizedPnL'', ''+UnrealizedPnL'', ''+TokenSalesPnL'',
         ''+FeesFunding(net)'', ''=EndingEquity'']
   \<and> ledger_balanced (report_of small_env [deposit_row 1000] ''LIT'' (Finite 50) (Finite 0) (Finite 1050))
        (1 / 10 ^ 6)"
proof -
  let ?rep = "report_of small_env [deposit_row 1000] ''LIT'' (Finite 50) (Finite 0) (Finite 1050)"
  have m: "inference_method64 (initial_capital_inference ?rep) = ''reconciliation''"
    by (simp add: report_of_def Let_def token_sell_summary_def small_env_def deposit_row_def cell64_def
      str_contains_nocase_def fsub_def round_double_exact infer64_cases max_capital_proxy64_def
      cumsum64_def series_min64_def)
  have w: "list_all (\<lambda>l. within_magnitude (10 ^ 8) (ledger_entry ?rep l))
        [''+NetDeposits'', ''+RealizedPnL'', ''+UnrealizedPnL'', ''+TokenSalesPnL'',
         ''+FeesFunding(net)'', ''=EndingEquity'']"
    by (simp add: ledger_entry_def witness_ledger within_magnitude_def)
  from witness_report m w ledger_balanced_reconciliation [OF witness_report m w]
  show ?thesis by (intro conjI)
qed

text \<open>
  The same holds of the six terms added in doubles from the left.
\<close>

lemma ledger_double_sum_reconciliation:
  assumes "build_profit_report E df snap kw = Inr rep"
    and "inference_method64 (initial_capital_inference rep) = ''reconciliation''"
    and "list_all (\<lambda>l. within_magnitude (10 ^ 8) (ledger_entry rep l))
           [''+NetDeposits'', ''+RealizedPnL'', ''+UnrealizedPnL'', ''+TokenSalesPnL'',
            ''+FeesFunding(net)'', ''=EndingEquity'']"
  shows "\<exists>s e. double_sum (map (ledger_entry rep) ledger_terms) = Finite s
                \<and> ledger_entry rep ''=EndingEquity'' = Finite e \<and> \<bar>s - e\<bar> \<le> 1 / 10 ^ 6"
proof -
  from assms obtain b d r u t f e where
    led: "reconciliation rep =
       [(''BeginningEquity(estimated)'', Finite b), (''+NetDeposits'', Finite d),
        (''+RealizedPnL'', Finite r), (''+UnrealizedPnL'', Finite u), (''+TokenSalesPnL'', Finite t),
        (''+FeesFunding(net)'', Finite f), (''=EndingEquity'', Finite e)]"
    and m: "\<bar>d\<bar> \<le> 10 ^ 8" "\<bar>r\<bar> \<le> 10 ^ 8" "\<bar>u\<bar> \<le> 10 ^ 8" "\<bar>t\<bar> \<le> 10 ^ 8"
      "\<bar>f\<bar> \<le> 10 ^ 8"
    and bb: "\<bar>b\<bar> \<le> 600000005"
    and gap: "\<bar>b + d + r + u + t + f - e\<bar> \<le> 1700000012 / 2 ^ 53"
    by (rule ledger_reconciliation_values)
  have z: "\<bar>0::real\<bar> \<le> 0" by simp
  obtain s1 where s1: "fadd (Finite 0) (Finite b) = Finite s1"
    "\<bar>s1 - (0 + b)\<bar> \<le> (0 + 600000005 + 1) / 2 ^ 53" "\<bar>s1\<bar> \<le> 0 + 600000005 + 1"
    using fadd_finite [OF z bb] by auto
  obtain s2 where s2: "fadd (Finite s1) (Finite d) = Finite s2"
    "\<bar>s2 - (s1 + d)\<bar> \<le> ((0 + 600000005 + 1) + 10 ^ 8 + 1) / 2 ^ 53"
    "\<bar>s2\<bar> \<le> (0 + 600000005 + 1) + 10 ^ 8 + 1"
    using fadd_finite [OF s1(3) m(1)] by auto
  obtain s3 where s3: "fadd (Finite s2) (Finite r) = Finite s3"
    "\<bar>s3 - (s2 + r)\<bar> \<le> (((0 + 600000005 + 1) + 10 ^ 8 + 1) + 10 ^ 8 + 1) / 2 ^ 53"
    "\<bar>s3\<bar> \<le> ((0 + 600000005 + 1) + 10 ^ 8 + 1) + 10 ^ 8 + 1"
    using fadd_finite [OF s2(3) m(2)] by auto
  obtain s4 where s4: "fadd (Finite s3) (Finite u) = Finite s4"
    "\<bar>s4 - (s3 + u)\<bar> \<le> ((((0 + 600000005 + 1) + 10 ^ 8 + 1) + 10 ^ 8 + 1) + 10 ^ 8 + 1) / 2 ^ 53"
    "\<bar>s4\<bar> \<le> (((0 + 600000005 + 1) + 10 ^ 8 + 1) + 10 ^ 8 + 1) + 10 ^ 8 + 1"
    using fadd_finite [OF s3(3) m(3)] by auto
  obtain s5 where s5: "fadd (Finite s4) (Finite t) = Finite s5"
    "\<bar>s5 - (s4 + t)\<bar>
       \<le> (((((0 + 600000005 + 1) + 10 ^ 8 + 1) + 10 ^ 8 + 1) + 10 ^ 8 + 1) + 10 ^ 8 + 1) / 2 ^ 53"
    "\<bar>s5\<bar> \<le> ((((0 + 600000005 + 1) + 10 ^ 8 + 1) + 10 ^ 8 + 1) + 10 ^ 8 + 1) + 10 ^ 8 + 1"
    using fadd_finite [OF s4(3) m(4)] by auto
  obtain s6 where s6: "fadd (Finite s5) (Finite f) = Finite s6"
    "\<bar>s6 - (s5 + f)\<bar>
       \<le> ((((((0 + 600000005 + 1) + 10 ^ 8 + 1) + 10 ^ 8 + 1) + 10 ^ 8 + 1) + 10 ^ 8 + 1) + 10 ^ 8 + 1)
          / 2 ^ 53"
    using fadd_finite [OF s5(3) m(5)] by auto
  have sum: "double_sum (map (ledger_entry rep) ledger_terms) = Finite s6"
    unfolding double_sum_def ledger_terms_def
    by (simp add: ledger_entry_def led del: fadd.simps) (simp only: s1(1) s2(1) s3(1) s4(1) s5(1) s6(1))
  define c1 where "c1 = s1 - (0 + b)"
  define c2 where "c2 = s2 - (s1 + d)"
  define c3 where "c3 = s3 - (s2 + r)"
  define c4 where "c4 = s4 - (s3 + u)"
  define c5 where "c5 = s5 - (s4 + t)"
  define c6 where "c6 = s6 - (s5 + f)"
  define g where "g = b + d + r + u + t + f - e"
  have c: "\<bar>c1\<bar> \<le> 600000006 / 2 ^ 53" "\<bar>c2\<bar> \<le> 700000007 / 2 ^ 53"
    "\<bar>c3\<bar> \<le> 800000008 / 2 ^ 53" "\<bar>c4\<bar> \<le> 900000009 / 2 ^ 53"
    "\<bar>c5\<bar> \<le> 1000000010 / 2 ^ 53" "\<bar>c6\<bar> \<le> 1100000011 / 2 ^ 53"
    using s1(2) s2(2) s3(2) s4(2) s5(2) s6(2)
    unfolding c1_def c2_def c3_def c4_def c5_def c6_def by simp_all
  have gg: "\<bar>g\<bar> \<le> 1700000012 / 2 ^ 53" using gap by (simp add: g_def)
  have "s6 - e = c6 + c5 + c4 + c3 + c2 + c1 + g"
    by (simp add: c1_def c2_def c3_def c4_def c5_def c6_def g_def)
  also have "\<bar>\<dots>\<bar> \<le> \<bar>c6\<bar> + \<bar>c5\<bar> + \<bar>c4\<bar> + \<bar>c3\<bar> + \<bar>c2\<bar> + \<bar>c1\<bar> + \<bar>g\<bar>" by linarith
  also have "\<dots> \<le> 1100000011 / 2 ^ 53 + 1000000010 / 2 ^ 53 + 900000009 / 2 ^ 53
                   + 800000008 / 2 ^ 53 + 700000007 / 2 ^ 53 + 600000006 / 2 ^ 53
                   + 1700000012 / 2 ^ 53"
    using c gg by (intro add_mono)
  also have "\<dots> \<le> 1 / 10 ^ 6" by simp
  finally have "\<bar>s6 - e\<bar> \<le> 1 / 10 ^ 6" .
  moreover have "ledger_entry rep ''=EndingEquity'' = Finite e"
    by (simp add: ledger_entry_def led)
  ultimately show ?thesis using sum by blast
qed

text \<open>
  The bound on the magnitudes is needed: with an ending equity of 2^53 - 1 and a
  withdrawal of 2 the subtraction rounds 2^53 + 1 down, the method is "reconciliation" and
  the ledger misses its ending equity by 1.
\<close>

lemma rounding_report:
  "build_profit_report small_env [withdrawal_row 2]
      [(''ending_equity'', PInt 9007199254740991)] ''LIT''
   = Inr (report_of small_env [withdrawal_row 2] ''LIT'' (Finite 0) (Finite 0) (Finite 9007199254740991))"
  by (simp add: build_profit_report_def dict_get_def round_double_exact)

lemma rounding_ledger:
  "reconciliation (report_of small_env [withdrawal_row 2] ''LIT'' (Finite 0) (Finite 0) (Finite 9007199254740991))
   = [(''BeginningEquity(estimated)'', Finite 9007199254740992), (''+NetDeposits'', Finite (- 2)),
      (''+RealizedPnL'', Finite 0), (''+UnrealizedPnL'', Finite 0), (''+TokenSalesPnL'', Finite 0),
      (''+FeesFunding(net)'', Finite 0), (''=EndingEquity'', Finite 9007199254740991)]"
  by (simp add: report_of_def Let_def token_sell_summary_def small_env_def withdrawal_row_def cell64_def
      str_contains_nocase_def fsub_def round_double_exact round_double_tie infer64_cases
      max_capital_proxy64_def cumsum64_def series_min64_def)

lemma ledger_rounding_example:
  "inference_method64 (initial_capital_inference
      (report_of small_env [withdrawal_row 2] ''LIT'' (Finite 0) (Finite 0) (Finite 9007199254740991)))
     = ''reconciliation''
   \<and> ledger_gap (report_of small_env [withdrawal_row 2] ''LIT'' (Finite 0) (Finite 0) (Finite 9007199254740991))
     = Some 1"
proof -
  let ?rep = "report_of small_env [withdrawal_row 2] ''LIT'' (Finite 0) (Finite 0) (Finite 9007199254740991)"
  have m: "inference_method64 (initial_capital_inference ?rep) = ''reconciliation''"
    by (simp add: report_of_def Let_def token_sell_summary_def small_env_def withdrawal_row_def cell64_def
      str_contains_nocase_def fsub_def round_double_exact round_double_tie infer64_cases
      max_capital_proxy64_def cumsum64_def series_min64_def)
  have g: "ledger_gap ?rep = Some 1"
    by (simp add: ledger_gap_def ledger_terms_def ledger_entry_def rounding_ledger)
  from m g show ?thesis by simp
qed

text \<open>
  So is finiteness: a NaN ending equity leaves the method "reconciliation", and its ledger
  balances within no tolerance.
\<close>

lemma fsub_NaN [simp]: "fsub NaN b = NaN"
  by (simp add: fsub_def)

lemma nan_equity_breaks_ledger:
  assumes "build_profit_report E df snap kw = Inr rep" and "ending_equity (summary rep) = NaN"
  shows "inference_method64 (initial_capital_inference rep) = ''reconciliation''
         \<and> \<not> ledger_balanced rep tol"
proof -
  from assms(1) obtain rp up ee where rep: "rep = report_of E df kw rp up ee"
    by (rule build_profit_report_Inr)
  from assms(2) have ee: "ee = NaN" by (simp add: rep report_of_def Let_def)
  have "inference_method64 (initial_capital_inference rep) = ''reconciliation''"
    unfolding rep inference_of_report by (simp add: ee infer64_cases Let_def)
  moreover have "ledger_entry rep ''=EndingEquity'' = NaN"
    by (simp add: ledger_entry_def rep ledger_of_report ee)
  then have "ledger_gap rep = None"
    by (simp add: ledger_gap_def split: option.splits)
  ultimately show ?thesis by (simp add: ledger_balanced_def)
qed

section \<open>The coverage guard\<close>

lemma map_of_find: "map_of (map (\<lambda>s. (f s, s)) xs) c = List.find (\<lambda>s. f s = c) xs"
  by (induction xs) auto

lemma by_name_latest: "by_name statuses c = latest_status statuses c"
  by (simp add: by_name_def latest_status_def rev_map map_of_find)

lemma latest_none: "latest_status statuses c = None \<longleftrightarrow> \<not> attempted statuses c"
  by (auto simp: latest_status_def attempted_def find_None_iff)

lemma length_filter_eq_iff:
  assumes "\<And>x. P x \<Longrightarrow> Q x"
  shows "length (filter P xs) = length (filter Q xs) \<longleftrightarrow> (\<forall>x\<in>set xs. Q x \<longrightarrow> P x)"
proof (induction xs)
  case Nil
  show ?case by simp
next
  case (Cons x xs)
  have le: "length (filter P xs) \<le> length (filter Q xs)"
  proof (induction xs)
    case Nil show ?case by simp
  next
    case (Cons y ys) with assms show ?case by auto
  qed
  show ?case
  proof (cases "Q x")
    case False
    with assms have "\<not> P x" by blast
    with False Cons show ?thesis by simp
  next
    case True
    show ?thesis
    proof (cases "P x")
      case True
      with \<open>Q x\<close> Cons show ?thesis by simp
    next
      case False
      with \<open>Q x\<close> le show ?thesis by auto
    qed
  qed
qed

lemma failed_filter:
  "filter (\<lambda>n. case by_name statuses n of None \<Rightarrow> False | Some s \<Rightarrow> \<not> success s) xs
   = filter (\<lambda>n. \<exists>s. latest_status statuses n = Some s \<and> \<not> success s) xs"
  by (rule filter_cong) (auto simp: by_name_latest split: option.splits)

lemma coverage_unfold:
  "ensure_api_coverage statuses transfers trades =
    (if (\<exists>c\<in>set core. \<not> attempted statuses c)
        \<or> (transfers = [] \<and> trades = []
            \<and> (\<forall>c\<in>set core. attempted statuses c \<longrightarrow> (\<exists>s. latest_status statuses c = Some s \<and> \<not> success s)))
     then Inl (RuntimeError
       \<lparr>missing_core_status = filter (\<lambda>c. \<not> attempted statuses c) core,
        failed_core_endpoints = filter (\<lambda>c. \<exists>s. latest_status statuses c = Some s \<and> \<not> success s) core,
        transfers_rows = length transfers, trades_rows = length trades\<rparr>)
     else Inr ())"
proof -
  let ?F = "\<lambda>n. \<exists>s. latest_status statuses n = Some s \<and> \<not> success s"
  let ?A = "\<lambda>c. by_name statuses c \<noteq> None"
  have m: "filter (\<lambda>n. by_name statuses n = None) core = filter (\<lambda>c. \<not> attempted statuses c) core"
    by (simp add: by_name_latest latest_none)
  have m0: "(filter (\<lambda>c. \<not> attempted statuses c) core \<noteq> []) = (\<exists>c\<in>set core. \<not> attempted statuses c)"
    by (simp add: filter_empty_conv)
  have "\<And>x. ?F x \<Longrightarrow> ?A x" by (auto simp: by_name_latest)
  then have a: "(length (filter ?F core) = length (filter ?A core)) = (\<forall>c\<in>set core. ?A c \<longrightarrow> ?F c)"
    by (rule length_filter_eq_iff)
  have a': "(\<forall>c\<in>set core. ?A c \<longrightarrow> ?F c) = (\<forall>c\<in>set core. attempted statuses c \<longrightarrow> ?F c)"
    by (simp add: by_name_latest latest_none)
  show ?thesis
    unfolding ensure_api_coverage_def Let_def failed_filter m m0 a a' by simp
qed

text \<open>
  C4. The guard aborts exactly when some core endpoint (trades, deposit/history,
  withdraw/history, l1Metadata) was never attempted, or the transfer and the trade table are
  both empty and every attempted core endpoint failed. The error it raises lists the core
  endpoints that are missing, those that failed, and the row counts of the two tables.
  In particular, when every core endpoint was attempted, "trades" succeeded with records
  and the trade table is not empty, the guard does not abort, whatever the other core
  endpoints did.
\<close>

theorem ensure_api_coverage_abort_iff:
  "((\<exists>e. ensure_api_coverage statuses transfers trades = Inl e)
      \<longleftrightarrow> (\<exists>c\<in>set core. \<not> attempted statuses c)
          \<or> (transfers = [] \<and> trades = []
              \<and> (\<forall>c\<in>set core. attempted statuses c \<longrightarrow>
                    (\<exists>s. latest_status statuses c = Some s \<and> \<not> success s))))
   \<and> (\<forall>e. ensure_api_coverage statuses transfers trades = Inl e \<longrightarrow>
         e = RuntimeError
              \<lparr>missing_core_status = filter (\<lambda>c. \<not> attempted statuses c) core,
               failed_core_endpoints =
                 filter (\<lambda>c. \<exists>s. latest_status statuses c = Some s \<and> \<not> success s) core,
               transfers_rows = length transfers, trades_rows = length trades\<rparr>)
   \<and> ((\<forall>c\<in>set core. attempted statuses c)
        \<and> (\<exists>s. latest_status statuses ''trades'' = Some s \<and> success s \<and> 0 < records s)
        \<and> trades \<noteq> []
        \<longrightarrow> ensure_api_coverage statuses transfers trades = Inr ())"
  by (simp add: coverage_unfold) blast

theorem ensure_api_coverage_abort_iff_witness:
  "ensure_api_coverage only_trades_ok ([] :: unit list) [()] = Inr ()
   \<and> ensure_api_coverage all_core_down ([] :: unit list) ([] :: unit list)
     = Inl (RuntimeError
         \<lparr>missing_core_status = [],
          failed_core_endpoints = [''trades'', ''deposit/history'', ''withdraw/history'', ''l1Metadata''],
          transfers_rows = 0, trades_rows = 0\<rparr>)"
proof -
  have att: "\<forall>c\<in>set core. attempted only_trades_ok c"
    by (simp add: core_def attempted_def only_trades_ok_def endpoint_status_def)
  have ok: "\<exists>s. latest_status only_trades_ok ''trades'' = Some s \<and> success s \<and> 0 < records s"
    by (simp add: latest_status_def only_trades_ok_def endpoint_status_def)
  have ne: "[()] \<noteq> []" by simp
  from ensure_api_coverage_abort_iff [of only_trades_ok "[] :: unit list" "[()]"] att ok ne
  have one: "ensure_api_coverage only_trades_ok ([] :: unit list) [()] = Inr ()"
    by blast
  have att2: "\<forall>c\<in>set core. attempted all_core_down c"
    by (simp add: core_def attempted_def all_core_down_def endpoint_status_def)
  have failed2: "\<forall>c\<in>set core. attempted all_core_down c \<longrightarrow>
      (\<exists>s. latest_status all_core_down c = Some s \<and> \<not> success s)"
    by (simp add: core_def latest_status_def all_core_down_def endpoint_status_def)
  from ensure_api_coverage_abort_iff [of all_core_down "[] :: unit list" "[] :: unit list"] failed2
  obtain e where e: "ensure_api_coverage all_core_down ([] :: unit list) ([] :: unit list) = Inl e"
    by blast
  with ensure_api_coverage_abort_iff [of all_core_down "[] :: unit list" "[] :: unit list"]
  have "e = RuntimeError
      \<lparr>missing_core_status = filter (\<lambda>c. \<not> attempted all_core_down c) core,
       failed_core_endpoints =
         filter (\<lambda>c. \<exists>s. latest_status all_core_down c = Some s \<and> \<not> success s) core,
       transfers_rows = length ([] :: unit list), trades_rows = length ([] :: unit list)\<rparr>"
    by blast
  also have "\<dots> = RuntimeError
         \<lparr>missing_core_status = [],
          failed_core_endpoints = [''trades'', ''deposit/history'', ''withdraw/history'', ''l1Metadata''],
          transfers_rows = 0, trades_rows = 0\<rparr>"
    by (simp add: core_def attempted_def latest_status_def all_core_down_def endpoint_status_def)
  finally show ?thesis using one e by simp
qed

section \<open>The side of a trade\<close>

lemma lower_simps [simp]: "lower [] = []" "lower (c # cs) = lower_char c # lower cs"
  by (simp_all add: lower_def)

lemma digit_char_inj:
  assumes "d < 10" "d' < 10" "digit_char d = digit_char d'"
  shows "d = d'"
proof -
  have "distinct ''0123456789''" by simp
  moreover have "d < length ''0123456789''" "d' < length ''0123456789''" using assms by simp_all
  moreover have "''0123456789'' ! d = ''0123456789'' ! d'" using assms by (simp add: digit_char_def)
  ultimately show ?thesis by (simp only: nth_eq_iff_index_eq)
qed

lemma str_of_nat_small: "n < 10 \<Longrightarrow> str_of_nat n = [digit_char n]"
  by (simp add: str_of_nat.simps)

lemma str_of_nat_big: "\<not> n < 10 \<Longrightarrow> str_of_nat n = str_of_nat (n div 10) @ [digit_char (n mod 10)]"
  by (subst str_of_nat.simps) simp

lemma str_of_nat_nonempty: "str_of_nat n \<noteq> []"
  by (cases "n < 10") (simp_all add: str_of_nat_small str_of_nat_big)

lemma str_of_nat_inj: "str_of_nat n = str_of_nat m \<Longrightarrow> n = m"
proof (induction n arbitrary: m rule: str_of_nat.induct)
  case (1 n)
  show ?case
  proof (cases "n < 10")
    case n: True
    show ?thesis
    proof (cases "m < 10")
      case True
      with n "1.prems" show ?thesis by (auto simp: str_of_nat_small dest: digit_char_inj)
    next
      case False
      with n "1.prems" show ?thesis
        by (simp add: str_of_nat_small str_of_nat_big str_of_nat_nonempty Cons_eq_append_conv)
    qed
  next
    case n: False
    show ?thesis
    proof (cases "m < 10")
      case True
      with n "1.prems" show ?thesis
        by (simp add: str_of_nat_small str_of_nat_big str_of_nat_nonempty append_eq_Cons_conv)
    next
      case False
      with n "1.prems" have eq: "str_of_nat (n div 10) = str_of_nat (m div 10)"
        and dg: "digit_char (n mod 10) = digit_char (m mod 10)"
        by (simp_all add: str_of_nat_big)
      from "1.IH" [OF n eq] have "n div 10 = m div 10" .
      moreover from dg have "n mod 10 = m mod 10" by (auto dest!: digit_char_inj [rotated 2])
      ultimately show ?thesis by (metis div_mult_mod_eq)
    qed
  qed
qed

lemma digit_char_not_minus: "digit_char d \<noteq> CHR ''-''"
proof -
  have "digit_char d \<in> set ''0123456789''"
    unfolding digit_char_def by (rule nth_mem) simp
  then show ?thesis by auto
qed

lemma str_of_nat_hd_not_minus: "hd (str_of_nat n) \<noteq> CHR ''-''"
proof (induction n rule: str_of_nat.induct)
  case (1 n)
  show ?case
  proof (cases "n < 10")
    case True
    then show ?thesis by (simp add: str_of_nat_small digit_char_not_minus)
  next
    case False
    with "1.IH" show ?thesis by (simp add: str_of_nat_big str_of_nat_nonempty)
  qed
qed

lemma str_of_int_inj: "str_of_int i = str_of_int j \<longleftrightarrow> i = j"
proof
  assume eq: "str_of_int i = str_of_int j"
  have neg: "str_of_nat n \<noteq> CHR ''-'' # s" for n s
    using str_of_nat_hd_not_minus [of n] by (cases "str_of_nat n") auto
  show "i = j"
  proof (cases "i < 0")
    case i: True
    show ?thesis
    proof (cases "j < 0")
      case True
      with i eq have "nat (- i) = nat (- j)" by (simp add: str_of_int_def str_of_nat_inj)
      with i True show ?thesis by simp
    next
      case False
      with i eq neg [of "nat j" "str_of_nat (nat (- i))"] show ?thesis by (simp add: str_of_int_def)
    qed
  next
    case i: False
    show ?thesis
    proof (cases "j < 0")
      case True
      with i eq neg [of "nat i" "str_of_nat (nat (- j))"] show ?thesis by (simp add: str_of_int_def)
    next
      case False
      with i eq have "nat i = nat j" by (simp add: str_of_int_def str_of_nat_inj)
      with i False show ?thesis by simp
    qed
  qed
qed simp

lemma str_of_int_nonempty: "str_of_int i \<noteq> []"
  by (simp add: str_of_int_def str_of_nat_nonempty)

lemma str_of_int_0: "str_of_int 0 = ''0''"
  by (simp add: str_of_int_def str_of_nat.simps digit_char_def)

lemma str_of_int_3: "str_of_int 3 = ''3''"
  by (simp add: str_of_int_def str_of_nat.simps digit_char_def)

lemma str_of_int_7: "str_of_int 7 = ''7''"
  by (simp add: str_of_int_def str_of_nat.simps digit_char_def)

text \<open>
  The resolver is total and answers with one of three words, never with an empty string.
\<close>

lemma resolve_side_range: "resolve_side E raw a \<in> {''buy'', ''sell'', ''unknown''}"
  unfolding resolve_side_def Let_def by (simp del: lower_simps)

text \<open>
  Without an explicit side, with a boolean flag and integer indices, the resolver takes
  the taker's side when the account is the taker, the opposite side when it is the maker,
  and the taker's side otherwise; an index that is 0 is read as absent.
\<close>

lemma resolve_side_by_indices:
  assumes "dict_get raw ''side'' = PNone" "dict_get raw ''direction'' = PNone"
    and "dict_get raw ''trade_side'' = PNone"
    and "dict_get raw ''is_taker_ask'' = PBool ask"
    and "dict_get raw ''taker_account_index'' = PInt t"
    and "dict_get raw ''maker_account_index'' = PInt m"
  shows "resolve_side E raw a =
          (if t \<noteq> 0 \<and> t = a then (if ask then ''sell'' else ''buy'')
           else if m \<noteq> 0 \<and> m = a then (if ask then ''buy'' else ''sell'')
           else (if ask then ''sell'' else ''buy''))"
  using assms
  by (simp add: resolve_side_def get_or3_def py_or_def Let_def str_of_int_inj str_of_int_nonempty
      lower_char_def)

text \<open>
  C5. The resolver is to use the opposite of the taker's side when the local account is the
  trade's maker. For the account index 0, the default of the settings, and a fill whose
  maker index is the integer 0 and whose taker (account 7) sold, the account is the maker
  and the side should be "buy"; the resolver answers "sell", the taker's side, because
  \<^verbatim>\<open>raw.get("maker_account_index") or ""\<close> turns the index 0 into the empty string.
\<close>

theorem resolve_side_maker_index_zero:
  "account_role (maker_fill 0) 0 = Maker \<and> resolve_side plain_env (maker_fill 0) 0 = ''sell''"
  by (simp add: resolve_side_def account_role_def maker_fill_def get_or3_def dict_get_def py_or_def
      Let_def str_of_int_0 str_of_int_7 lower_char_def)

lemma resolve_side_maker_3: "resolve_side plain_env (maker_fill 3) 3 = ''buy''"
  by (simp add: resolve_side_def account_role_def maker_fill_def get_or3_def dict_get_def py_or_def
      Let_def str_of_int_3 str_of_int_7 lower_char_def)

section \<open>The fee of a trade\<close>

lemma normalize_trade_fee: "t_fee_quote (normalize_trade E pt raw src a mm) = trade_fee_quote E raw a"
  by (simp add: normalize_trade_def Let_def)

lemma normalize_trade_notional:
  "t_notional_quote (normalize_trade E pt raw src a mm) = \<bar>trade_notional E raw\<bar>"
  by (simp add: normalize_trade_def Let_def)

lemma maker_fill_notional: "trade_notional plain_env (maker_fill 3) = 100"
  by (simp add: trade_notional_def trade_size_def trade_price_def to_float_def get_or3_def
      get_or2_def dict_get_def py_or_def maker_fill_def Let_def)

lemma maker_fill_no_fee: "to_float plain_env (get_or2 (maker_fill 3) ''fee'' ''fee_usd'') 0 = 0"
  by (simp add: to_float_def get_or2_def dict_get_def py_or_def maker_fill_def)

lemma maker_fill_bps:
  "to_float plain_env (dict_get (maker_fill 3) ''taker_fee'') 0 = 5"
  "to_float plain_env (dict_get (maker_fill 3) ''maker_fee'') 0 = 2"
  by (simp_all add: to_float_def dict_get_def maker_fill_def)

text \<open>
  C8. Without an explicit fee the normalizer is to take the rate of the account's role in
  the trade: the taker's when the account is the taker, the maker's when it is the maker.
  In the fill whose maker is the local account 3, with no fee field, a notional of 100, a
  taker fee of 5 bps and a maker fee of 2 bps, the fee should be the maker's
  100 * 2 / 10000; the normalizer gives 100 * 5 / 10000, the taker's.
\<close>

theorem fee_of_maker_fill:
  "account_role (maker_fill 3) 3 = Maker
   \<and> dict_get (maker_fill 3) ''fee'' = PNone \<and> dict_get (maker_fill 3) ''fee_usd'' = PNone
   \<and> t_notional_quote (normalize_trade plain_env no_timestamp (maker_fill 3) ''trades'' 3 Map.empty) = 100
   \<and> to_float plain_env (dict_get (maker_fill 3) ''taker_fee'') 0 = 5
   \<and> to_float plain_env (dict_get (maker_fill 3) ''maker_fee'') 0 = 2
   \<and> t_fee_quote (normalize_trade plain_env no_timestamp (maker_fill 3) ''trades'' 3 Map.empty)
       = 100 * 5 / 10000
   \<and> t_fee_quote (normalize_trade plain_env no_timestamp (maker_fill 3) ''trades'' 3 Map.empty)
       \<noteq> 100 * 2 / 10000"
  by (simp add: normalize_trade_fee normalize_trade_notional trade_fee_quote_def Let_def
      maker_fill_no_fee maker_fill_notional maker_fill_bps resolve_side_maker_3)
   (simp add: account_role_def dict_get_def maker_fill_def)

text \<open>
  What the normalizer computes: the rate follows the resolved side, the taker's for buy and
  sell and the maker's for an unknown side, and it multiplies the notional as it stands
  before the row takes its absolute value.
\<close>

lemma trade_fee_follows_side:
  assumes "to_float E (get_or2 raw ''fee'' ''fee_usd'') 0 = 0"
    and "trade_notional E raw \<noteq> 0"
  shows "t_fee_quote (normalize_trade E pt raw src a mm)
         = trade_notional E raw
           * (if resolve_side E raw a \<in> {''buy'', ''sell''}
              then to_float E (dict_get raw ''taker_fee'') 0
              else to_float E (dict_get raw ''maker_fee'') 0) / 10000"
  using assms by (simp add: normalize_trade_fee trade_fee_quote_def Let_def)

text \<open>
  So a taker is charged the maker's rate when the side does not resolve: the fill taken by
  the local account 3 without a taker flag has the side "unknown" and the fee 100 * 2 / 10000.
\<close>

lemma fee_of_taker_fill_without_flag:
  "account_role taker_fill_without_flag 3 = Taker
   \<and> resolve_side plain_env taker_fill_without_flag 3 = ''unknown''
   \<and> t_fee_quote (normalize_trade plain_env no_timestamp taker_fill_without_flag ''trades'' 3 Map.empty)
       = 100 * 2 / 10000"
  by (simp add: normalize_trade_fee trade_fee_quote_def trade_notional_def trade_size_def
      trade_price_def to_float_def get_or2_def get_or3_def dict_get_def py_or_def Let_def
      resolve_side_def account_role_def taker_fill_without_flag_def lower_char_def)

section \<open>The signs of the normalized amounts\<close>

text \<open>
  A normalized trade has a size and a notional that are not negative.
\<close>

lemma normalize_trade_nonneg:
  "0 \<le> t_size (normalize_trade E pt raw src a mm) \<and> 0 \<le> t_notional_quote (normalize_trade E pt raw src a mm)"
  by (simp add: normalize_trade_def Let_def)

text \<open>
  C9. Every normalized event is to carry a quantity that is not negative, transfers as
  trades. A withdrawal that the endpoint reports with the amount -5 keeps it: the
  normalized transfer has the event type "withdraw" and the amount -5, for the transfer
  normalizer takes no absolute value where the trade normalizer does.
\<close>

theorem normalize_transfer_negative_amount:
  "x_event_type (normalize_transfer plain_env no_timestamp negative_withdrawal ''withdraw/history'' ''withdraw'') = ''withdraw''
   \<and> x_amount_quote (normalize_transfer plain_env no_timestamp negative_withdrawal ''withdraw/history'' ''withdraw'') = - 5"
  by (simp add: normalize_transfer_def Let_def pick_amount_def negative_withdrawal_def to_float_def
      dict_get_def get_or2_def py_or_def lower_char_def)

section \<open>Deduplication\<close>

lemma ddl_keys: "set (map key (drop_duplicates_last key xs)) = set (map key xs)"
  by (induction xs) auto

lemma ddl_distinct: "distinct (map key (drop_duplicates_last key xs))"
proof (induction xs)
  case Nil show ?case by simp
next
  case (Cons x xs)
  have "set (map key (drop_duplicates_last key xs)) = set (map key xs)"
    by (rule ddl_keys)
  then have "key x \<notin> set (map key xs) \<Longrightarrow> key x \<notin> key ` set (drop_duplicates_last key xs)"
    by simp
  with Cons show ?case by simp
qed

lemma ddl_append_covered:
  assumes "set (map key ys) \<subseteq> set (map key zs)"
  shows "drop_duplicates_last key (ys @ zs) = drop_duplicates_last key zs"
  using assms by (induction ys) auto

lemma ddl_self_append: "drop_duplicates_last key (xs @ xs) = drop_duplicates_last key xs"
  by (rule ddl_append_covered) simp

lemma find_snoc:
  "List.find P (xs @ [x]) = (case List.find P xs of None \<Rightarrow> (if P x then Some x else None) | Some y \<Rightarrow> Some y)"
  by (induction xs) auto

lemma ddl_last_wins:
  "last_with_key key (drop_duplicates_last key xs) k = last_with_key key xs k"
proof (induction xs)
  case Nil show ?case by simp
next
  case (Cons x xs)
  show ?case
  proof (cases "key x \<in> set (map key xs)")
    case True
    then have "k = key x \<Longrightarrow> List.find (\<lambda>r. key r = k) (rev xs) \<noteq> None"
      by (auto simp: find_None_iff)
    with True Cons show ?thesis
      by (auto simp: last_with_key_def find_snoc split: option.splits)
  next
    case False
    with Cons show ?thesis
      by (simp add: last_with_key_def find_snoc)
  qed
qed

lemma fill_rows_dedup:
  "dedup_trades [fill_row 0 ''trades'', fill_row (1 / 20) ''accountTrades''] = Inr [fill_row (1 / 20) ''accountTrades'']"
  by (simp add: dedup_trades_def trade_key_def fill_row_def)

text \<open>
  C7. Deduplication is idempotent under the rows of the table appended to itself: for the
  trade key (timestamp, side, market, size, price, tx\_hash), the transfer key (timestamp,
  event\_type, asset, amount, tx\_hash) and the balance key (timestamp, total\_asset\_value,
  collateral, source), the table with its own rows appended deduplicates to what the table
  alone does (or raises as it does). The last row seen wins: the kept rows have distinct
  keys, and the kept row of a key is the last row of the table with that key.
\<close>

theorem dedup_self_append:
  "dedup_trades (ts @ ts) = dedup_trades ts
   \<and> dedup_transfers (xs @ xs) = dedup_transfers xs
   \<and> dedup_balances (bs @ bs) = dedup_balances bs
   \<and> (\<forall>kept. dedup_trades ts = Inr kept \<longrightarrow>
         distinct (map trade_key kept)
         \<and> (\<forall>k. last_with_key trade_key kept k = last_with_key trade_key ts k))
   \<and> (\<forall>kept. dedup_transfers xs = Inr kept \<longrightarrow>
         distinct (map transfer_key kept)
         \<and> (\<forall>k. last_with_key transfer_key kept k = last_with_key transfer_key xs k))
   \<and> (\<forall>kept. dedup_balances bs = Inr kept \<longrightarrow>
         distinct (map balance_key kept)
         \<and> (\<forall>k. last_with_key balance_key kept k = last_with_key balance_key bs k))"
proof -
  have t1: "dedup_trades (ts @ ts) = dedup_trades ts"
    by (simp add: dedup_trades_def ddl_self_append)
  have x1: "dedup_transfers (xs @ xs) = dedup_transfers xs"
    by (simp add: dedup_transfers_def ddl_self_append)
  have b1: "dedup_balances (bs @ bs) = dedup_balances bs"
    by (simp add: dedup_balances_def ddl_self_append)
  have t2: "distinct (map trade_key kept)
            \<and> (\<forall>k. last_with_key trade_key kept k = last_with_key trade_key ts k)"
    if "dedup_trades ts = Inr kept" for kept
    using that by (auto simp: dedup_trades_def ddl_distinct ddl_last_wins split: if_splits)
  have x2: "distinct (map transfer_key kept)
            \<and> (\<forall>k. last_with_key transfer_key kept k = last_with_key transfer_key xs k)"
    if "dedup_transfers xs = Inr kept" for kept
    using that by (auto simp: dedup_transfers_def ddl_distinct ddl_last_wins split: if_splits)
  have b2: "distinct (map balance_key kept)
            \<and> (\<forall>k. last_with_key balance_key kept k = last_with_key balance_key bs k)"
    if "dedup_balances bs = Inr kept" for kept
    using that by (auto simp: dedup_balances_def ddl_distinct ddl_last_wins split: if_splits)
  from t1 x1 b1 t2 x2 b2 show ?thesis by blast
qed

theorem dedup_self_append_witness:
  "dedup_trades ([fill_row 0 ''trades'', fill_row (1 / 20) ''accountTrades'']
                 @ [fill_row 0 ''trades'', fill_row (1 / 20) ''accountTrades''])
     = Inr [fill_row (1 / 20) ''accountTrades'']
   \<and> last_with_key trade_key [fill_row 0 ''trades'', fill_row (1 / 20) ''accountTrades'']
        (trade_key (fill_row 0 ''trades''))
     = Some (fill_row (1 / 20) ''accountTrades'')"
proof -
  let ?t = "[fill_row 0 ''trades'', fill_row (1 / 20) ''accountTrades'']"
  note inst = dedup_self_append [of ?t "[]" "[]"]
  from inst have a: "dedup_trades (?t @ ?t) = dedup_trades ?t" by blast
  from inst fill_rows_dedup
  have "last_with_key trade_key [fill_row (1 / 20) ''accountTrades''] (trade_key (fill_row 0 ''trades''))
        = last_with_key trade_key ?t (trade_key (fill_row 0 ''trades''))"
    by blast
  moreover have "last_with_key trade_key [fill_row (1 / 20) ''accountTrades''] (trade_key (fill_row 0 ''trades''))
        = Some (fill_row (1 / 20) ''accountTrades'')"
    by (simp add: last_with_key_def trade_key_def fill_row_def)
  ultimately show ?thesis using a fill_rows_dedup by simp
qed

end
